theory Spec2Isabelle
  imports Main "HOL-Library.Word" "HOL-Library.Monad_Syntax"
begin

unbundle bit_operations_syntax

section \<open>Data model\<close>

text \<open>
  Python integers are unbounded, so every integer field is an \<open>int\<close>;
  \<open>x >> n\<close> is \<open>drop_bit n x\<close>, \<open>x << n\<close> is \<open>push_bit n x\<close>, \<open>&\<close> and \<open>|\<close>
  are \<open>AND\<close> and \<open>OR\<close>.
\<close>

subsection \<open>Pipeline records\<close>

text \<open>
  Modelled from the spec: \<open>pyv/stages.py\<close>, which declares the four pipeline
  record types, is not among the sources. The fields are those of section 3 of the
  specification; the fields of each record carry the record's name as a prefix, because
  the four records share field names.
\<close>

record IFID_t =
  ifid_inst :: int
  ifid_pc :: int

record IDEX_t =
  idex_pc :: int
  idex_rs1 :: int
  idex_rs2 :: int
  idex_imm :: int
  idex_rd :: int
  idex_rs1_idx :: int
  idex_rs2_idx :: int
  idex_opcode :: int
  idex_funct3 :: int
  idex_funct7 :: int
  idex_we :: bool
  idex_wb_sel :: int
  idex_mem :: int
  idex_is_branch :: bool
  idex_csr_addr :: int
  idex_csr_read_val :: int
  idex_csr_write_en :: bool

record EXMEM_t =
  exmem_pc4 :: int
  exmem_alu_res :: int
  exmem_rs2 :: int
  exmem_rd :: int
  exmem_we :: bool
  exmem_wb_sel :: int
  exmem_mem :: int
  exmem_funct3 :: int
  exmem_take_branch :: bool
  exmem_csr_addr :: int
  exmem_csr_read_val :: int
  exmem_csr_write_en :: bool
  exmem_csr_write_val :: int

record MEMWB_t =
  memwb_pc4 :: int
  memwb_alu_res :: int
  memwb_mem_rdata :: int
  memwb_rd :: int
  memwb_we :: bool
  memwb_wb_sel :: int
  memwb_csr_addr :: int
  memwb_csr_read_val :: int
  memwb_csr_write_en :: bool
  memwb_csr_write_val :: int

text \<open>\<open>IFID_t(inst=0x00000013, pc=-4)\<close>, the reset value and bubble of IF/ID.\<close>

definition IFID_bubble :: IFID_t where
  "IFID_bubble = \<lparr>ifid_inst = 0x00000013, ifid_pc = - 4\<rparr>"

text \<open>
  Modelled from the spec: \<open>IDEX_t()\<close>, \<open>EXMEM_t()\<close> and \<open>MEMWB_t()\<close>, the records built
  with every field at its default, which section 3 gives as all zero
  (\<open>we = false\<close>, \<open>mem = 0\<close>).
\<close>

definition IDEX_zero :: IDEX_t where
  "IDEX_zero = \<lparr>idex_pc = 0, idex_rs1 = 0, idex_rs2 = 0, idex_imm = 0, idex_rd = 0,
     idex_rs1_idx = 0, idex_rs2_idx = 0, idex_opcode = 0, idex_funct3 = 0, idex_funct7 = 0,
     idex_we = False, idex_wb_sel = 0, idex_mem = 0, idex_is_branch = False,
     idex_csr_addr = 0, idex_csr_read_val = 0, idex_csr_write_en = False\<rparr>"

definition EXMEM_zero :: EXMEM_t where
  "EXMEM_zero = \<lparr>exmem_pc4 = 0, exmem_alu_res = 0, exmem_rs2 = 0, exmem_rd = 0,
     exmem_we = False, exmem_wb_sel = 0, exmem_mem = 0, exmem_funct3 = 0,
     exmem_take_branch = False, exmem_csr_addr = 0, exmem_csr_read_val = 0,
     exmem_csr_write_en = False, exmem_csr_write_val = 0\<rparr>"

definition MEMWB_zero :: MEMWB_t where
  "MEMWB_zero = \<lparr>memwb_pc4 = 0, memwb_alu_res = 0, memwb_mem_rdata = 0, memwb_rd = 0,
     memwb_we = False, memwb_wb_sel = 0, memwb_csr_addr = 0, memwb_csr_read_val = 0,
     memwb_csr_write_en = False, memwb_csr_write_val = 0\<rparr>"

subsection \<open>ISA tables\<close>

text \<open>
  Modelled from the spec: \<open>pyv/isa.py\<close> is not among the sources. \<open>isa.OPCODES\<close> maps
  the RV32I major opcode names to bits 6..2 of the instruction word; the values are the
  ones of the RV32I base encoding, which the canonical NOP \<open>0x00000013\<close> (OP-IMM),
  ECALL \<open>0x73\<close> (SYSTEM) and the instruction classes of section 4.11 fix.
\<close>

definition OPCODE_LOAD :: int where "OPCODE_LOAD = 0x00"
definition OPCODE_OP_IMM :: int where "OPCODE_OP_IMM = 0x04"
definition OPCODE_AUIPC :: int where "OPCODE_AUIPC = 0x05"
definition OPCODE_STORE :: int where "OPCODE_STORE = 0x08"
definition OPCODE_OP :: int where "OPCODE_OP = 0x0C"
definition OPCODE_LUI :: int where "OPCODE_LUI = 0x0D"
definition OPCODE_BRANCH :: int where "OPCODE_BRANCH = 0x18"
definition OPCODE_JALR :: int where "OPCODE_JALR = 0x19"
definition OPCODE_JAL :: int where "OPCODE_JAL = 0x1B"
definition OPCODE_SYSTEM :: int where "OPCODE_SYSTEM = 0x1C"


section \<open>Hazard unit (\<open>pyv/hazard.py\<close>)\<close>

record hazard_out =
  stall_pc_o :: bool
  stall_ifid_o :: bool
  stall_idex_o :: bool
  stall_exmem_o :: bool
  stall_memwb_o :: bool
  flush_ifid_o :: bool
  flush_idex_o :: bool
  flush_exmem_o :: bool

text \<open>The five local flags of \<open>HazardUnit.process\<close>.\<close>

record hazard_flags =
  stall_pc :: bool
  stall_ifid :: bool
  flush_ifid :: bool
  flush_idex :: bool
  flush_exmem :: bool

definition needs_rs1 :: "int \<Rightarrow> bool" where
  "needs_rs1 opcode \<longleftrightarrow>
     opcode \<in> set [OPCODE_OP, OPCODE_OP_IMM, OPCODE_LOAD, OPCODE_STORE, OPCODE_BRANCH,
                   OPCODE_JALR]"

definition needs_rs2 :: "int \<Rightarrow> bool" where
  "needs_rs2 opcode \<longleftrightarrow> opcode \<in> set [OPCODE_OP, OPCODE_STORE, OPCODE_BRANCH]"

text \<open>The three assignments every hazard branch makes.\<close>

definition stall_and_bubble :: "hazard_flags \<Rightarrow> hazard_flags" where
  "stall_and_bubble f = f\<lparr>stall_pc := True, stall_ifid := True, flush_idex := True\<rparr>"

text \<open>The body of \<open>if (inst & 0x3) == 0x3\<close>: the data hazard checks.\<close>

definition data_hazards :: "int \<Rightarrow> IDEX_t \<Rightarrow> EXMEM_t \<Rightarrow> hazard_flags \<Rightarrow> hazard_flags" where
  "data_hazards inst idex exmem f =
     (let opcode = drop_bit 2 inst AND 0x1F;
          rs1_idx = drop_bit 15 inst AND 0x1F;
          rs2_idx = drop_bit 20 inst AND 0x1F
      in if idex_mem idex = 1 then
           (let load_dest = idex_rd idex;
                need_rs1 = needs_rs1 opcode;
                need_rs2 = needs_rs2 opcode
            in if need_rs1 \<and> rs1_idx = load_dest \<and> load_dest \<noteq> 0 then stall_and_bubble f
               else if need_rs2 \<and> rs2_idx = load_dest \<and> load_dest \<noteq> 0 then stall_and_bubble f
               else f)
         else
           (let need_rs1 = needs_rs1 opcode;
                need_rs2 = needs_rs2 opcode
            in if idex_we idex \<and> idex_rd idex \<noteq> 0 then
                 (if (need_rs1 \<and> rs1_idx = idex_rd idex) \<or> (need_rs2 \<and> rs2_idx = idex_rd idex)
                  then stall_and_bubble f else f)
               else if exmem_we exmem \<and> exmem_rd exmem \<noteq> 0 then
                 (if (need_rs1 \<and> rs1_idx = exmem_rd exmem) \<or> (need_rs2 \<and> rs2_idx = exmem_rd exmem)
                  then stall_and_bubble f else f)
               else f))"

definition HazardUnit_process :: "IFID_t \<Rightarrow> IDEX_t \<Rightarrow> EXMEM_t \<Rightarrow> bool \<Rightarrow> hazard_out" where
  "HazardUnit_process ifid idex exmem take_branch =
     (let f0 = \<lparr>stall_pc = False, stall_ifid = False, flush_ifid = False, flush_idex = False,
                flush_exmem = False\<rparr>;
          inst = ifid_inst ifid;
          f1 = (if inst AND 0x3 = 0x3 then data_hazards inst idex exmem f0 else f0);
          f2 = (if take_branch then f1\<lparr>flush_ifid := True, flush_idex := True\<rparr> else f1)
      in \<lparr>stall_pc_o = stall_pc f2, stall_ifid_o = stall_ifid f2, stall_idex_o = False,
          stall_exmem_o = False, stall_memwb_o = False, flush_ifid_o = flush_ifid f2,
          flush_idex_o = flush_idex f2, flush_exmem_o = flush_exmem f2\<rparr>)"

text \<open>
  "The IF/ID instruction reads register \<open>r\<close>", in the words of section 4.8: as \<open>rs1\<close> if
  its opcode needs \<open>rs1\<close>, or as \<open>rs2\<close> if its opcode needs \<open>rs2\<close>.
\<close>

definition reads_reg :: "int \<Rightarrow> int \<Rightarrow> bool" where
  "reads_reg inst r \<longleftrightarrow>
     (needs_rs1 (drop_bit 2 inst AND 0x1F) \<and> drop_bit 15 inst AND 0x1F = r) \<or>
     (needs_rs2 (drop_bit 2 inst AND 0x1F) \<and> drop_bit 20 inst AND 0x1F = r)"

section \<open>Registers and pipeline registers (\<open>pyv/pipeline_regs.py\<close>)\<close>

text \<open>
  Modelled from the spec: \<open>Reg\<close> of \<open>pyv/reg.py\<close> and the commit phase of the simulator
  kernel are not among the sources. By sections 3 and 4.1, a module's \<open>process\<close> may write
  the \<open>next\<close> face of a register; at the clock edge \<open>current\<close> becomes \<open>next\<close>, and
  \<open>next\<close> is \<open>current\<close> when nobody wrote it in that cycle. A \<open>process\<close> therefore
  returns \<open>Some v\<close> for \<open>reg.next.write(v)\<close> and \<open>None\<close> when it does not write.
\<close>

definition Reg_tick :: "'a \<Rightarrow> 'a option \<Rightarrow> 'a" where
  "Reg_tick cur nxt = (case nxt of None \<Rightarrow> cur | Some v \<Rightarrow> v)"

definition IFIDReg_process :: "IFID_t \<Rightarrow> bool \<Rightarrow> bool \<Rightarrow> IFID_t option" where
  "IFIDReg_process IFID_i stall flush =
     (if flush then Some \<lparr>ifid_inst = 0x00000013, ifid_pc = - 4\<rparr>
      else if \<not> stall then Some IFID_i
      else None)"

definition IDEXReg_process :: "IDEX_t \<Rightarrow> bool \<Rightarrow> bool \<Rightarrow> IDEX_t option" where
  "IDEXReg_process IDEX_i stall flush =
     (if flush then Some IDEX_zero
      else if \<not> stall then Some IDEX_i
      else None)"

definition EXMEMReg_process :: "EXMEM_t \<Rightarrow> bool \<Rightarrow> bool \<Rightarrow> EXMEM_t option" where
  "EXMEMReg_process EXMEM_i stall flush =
     (if flush then Some EXMEM_zero
      else if \<not> stall then Some EXMEM_i
      else None)"

definition MEMWBReg_process :: "MEMWB_t \<Rightarrow> bool \<Rightarrow> bool \<Rightarrow> MEMWB_t option" where
  "MEMWBReg_process MEMWB_i stall flush =
     (if flush then Some MEMWB_zero
      else if \<not> stall then Some MEMWB_i
      else None)"

section \<open>Top-level wiring (\<open>pyv/models/pipelined.py\<close>)\<close>

subsection \<open>\<open>Pipelined.connects\<close>\<close>

text \<open>
  The first half of \<open>connects\<close>: the write to \<open>pc_reg.next\<close>, made only when the stall
  input is deasserted.
\<close>

definition connects_pc :: "bool \<Rightarrow> int \<Rightarrow> int option" where
  "connects_pc stall npc = (if \<not> stall then Some npc else None)"

text \<open>
  The second half: the \<open>take_branch\<close> and \<open>alu_res\<close> wires, both read from the output of
  the EX/MEM pipeline register.
\<close>

definition connects_signals :: "EXMEM_t \<Rightarrow> bool \<times> int" where
  "connects_signals exmem = (exmem_take_branch exmem, exmem_alu_res exmem)"

definition connects :: "bool \<Rightarrow> int \<Rightarrow> EXMEM_t \<Rightarrow> int option \<times> (bool \<times> int)" where
  "connects stall npc exmem = (connects_pc stall npc, connects_signals exmem)"

subsection \<open>One clock cycle of \<open>Pipelined\<close>\<close>

text \<open>
  The stage modules, the branch unit, the register file, the memory, the CSR and
  exception units (\<open>pyv/stages.py\<close>, \<open>pyv/reg.py\<close>, \<open>pyv/mem.py\<close>, \<open>pyv/csr.py\<close>,
  \<open>pyv/exception_unit.py\<close>) are not among the sources, so they are parameters: the state
  they own is a value of an arbitrary type \<open>'a\<close>, and each is a function with the inputs
  that \<open>Pipelined.__init__\<close> wires to it. IF reads the next-PC wire and the memory; ID
  reads the IF/ID output and the register file, which it shares with WB, so it may also
  see the MEM/WB output; EX reads the ID/EX output only; MEM reads the EX/MEM output and
  the memory; the branch unit reads \<open>pc\<close>, \<open>take_branch\<close> and \<open>alu_res\<close> and the
  exception signals, which come from ID and the CSRs. \<open>rest_tick\<close> is the state of these
  modules after the clock edge (the writes of MEM and WB and of the exception unit).
\<close>

record 'a stages =
  IF_stage :: "'a \<Rightarrow> int \<Rightarrow> IFID_t"
  ID_stage :: "'a \<Rightarrow> MEMWB_t \<Rightarrow> IFID_t \<Rightarrow> IDEX_t"
  EX_stage :: "IDEX_t \<Rightarrow> EXMEM_t"
  MEM_stage :: "'a \<Rightarrow> EXMEM_t \<Rightarrow> MEMWB_t"
  BranchUnit :: "'a \<Rightarrow> IFID_t \<Rightarrow> int \<Rightarrow> bool \<Rightarrow> int \<Rightarrow> int"
  rest_tick :: "'a \<Rightarrow> int \<Rightarrow> int \<Rightarrow> IFID_t \<Rightarrow> EXMEM_t \<Rightarrow> MEMWB_t \<Rightarrow> 'a"

text \<open>
  The registers that \<open>Pipelined\<close> itself declares: \<open>pc_reg = Reg(int, -4)\<close> and the four
  pipeline registers; \<open>rest\<close> is the state of the modules above.
\<close>

record 'a core =
  pc_reg :: int
  ifid_reg :: IFID_t
  idex_reg :: IDEX_t
  exmem_reg :: EXMEM_t
  memwb_reg :: MEMWB_t
  rest :: 'a

text \<open>
  Modelled from the spec: one \<open>step\<close> of the simulator kernel (section 4.1: settle the
  combinational logic, then commit every register) over the connections made in
  \<open>Pipelined.__init__\<close>. The hazard unit reads the three pipeline register outputs and
  the \<open>take_branch\<close> wire; the branch unit reads \<open>pc\<close>, \<open>take_branch\<close> and \<open>alu_res\<close>;
  IF/ID takes its stall and flush from the hazard unit, ID/EX and EX/MEM likewise, and
  the flush input of MEM/WB is the constant \<open>False\<close>.
\<close>

definition cycle :: "'a stages \<Rightarrow> 'a core \<Rightarrow> 'a core" where
  "cycle st s =
     (let (take_branch, alu_res) = connects_signals (exmem_reg s);
          hz = HazardUnit_process (ifid_reg s) (idex_reg s) (exmem_reg s) take_branch;
          npc = BranchUnit st (rest s) (ifid_reg s) (pc_reg s) take_branch alu_res
      in \<lparr>pc_reg = Reg_tick (pc_reg s) (connects_pc (stall_pc_o hz) npc),
          ifid_reg = Reg_tick (ifid_reg s)
            (IFIDReg_process (IF_stage st (rest s) npc) (stall_ifid_o hz) (flush_ifid_o hz)),
          idex_reg = Reg_tick (idex_reg s)
            (IDEXReg_process (ID_stage st (rest s) (memwb_reg s) (ifid_reg s)) (stall_idex_o hz)
               (flush_idex_o hz)),
          exmem_reg = Reg_tick (exmem_reg s)
            (EXMEMReg_process (EX_stage st (idex_reg s)) (stall_exmem_o hz) (flush_exmem_o hz)),
          memwb_reg = Reg_tick (memwb_reg s)
            (MEMWBReg_process (MEM_stage st (rest s) (exmem_reg s)) (stall_memwb_o hz) False),
          rest = rest_tick st (rest s) (pc_reg s) npc (ifid_reg s) (exmem_reg s)
                   (memwb_reg s)\<rparr>)"

section \<open>Disassembler (\<open>pyv/disassembler.py\<close>)\<close>

subsection \<open>Bit utilities and instruction classes\<close>

text \<open>
  Modelled from the spec: \<open>get_bit\<close> and \<open>get_bits\<close> of \<open>pyv/util.py\<close> are not among the
  sources; section 2 gives them as the extraction of a bit and of the field
  \<open>val[msb:lsb]\<close> from a word.
\<close>

definition get_bit :: "int \<Rightarrow> nat \<Rightarrow> int" where
  "get_bit val pos = drop_bit pos val AND 1"

definition get_bits :: "int \<Rightarrow> nat \<Rightarrow> nat \<Rightarrow> int" where
  "get_bits val msb lsb = drop_bit lsb val AND (push_bit (msb - lsb + 1) 1 - 1)"

text \<open>
  Modelled from the spec: the instruction classes \<open>isa.INST_I\<close> ... \<open>isa.INST_J\<close> and the
  CSR \<open>funct3\<close> codes \<open>isa.CSR_F3\<close> of \<open>pyv/isa.py\<close>, with the RV32I membership of
  sections 4.3 and 4.11.
\<close>

definition INST_I :: "int list" where "INST_I = [OPCODE_OP_IMM, OPCODE_JALR, OPCODE_LOAD]"
definition INST_S :: "int list" where "INST_S = [OPCODE_STORE]"
definition INST_B :: "int list" where "INST_B = [OPCODE_BRANCH]"
definition INST_U :: "int list" where "INST_U = [OPCODE_LUI, OPCODE_AUIPC]"
definition INST_J :: "int list" where "INST_J = [OPCODE_JAL]"

definition CSR_F3_CSRRW :: int where "CSR_F3_CSRRW = 1"
definition CSR_F3_CSRRS :: int where "CSR_F3_CSRRS = 2"
definition CSR_F3_CSRRC :: int where "CSR_F3_CSRRC = 3"
definition CSR_F3_CSRRWI :: int where "CSR_F3_CSRRWI = 5"
definition CSR_F3_CSRRSI :: int where "CSR_F3_CSRRSI = 6"
definition CSR_F3_CSRRCI :: int where "CSR_F3_CSRRCI = 7"

subsection \<open>\<open>Disassembler.decode_imm\<close>\<close>

text \<open>
  Each branch of the source sets the locals \<open>imm\<close> and \<open>sign_ext\<close>; the function returns
  \<open>sign_ext | imm\<close>. \<open>if sign\<close> tests the integer \<open>sign\<close> for being non-zero.
\<close>

definition decode_imm :: "int \<Rightarrow> int \<Rightarrow> int" where
  "decode_imm opcode inst =
     (let sign = get_bit inst 31;
          (sign_ext, imm) =
            (if opcode \<in> set INST_I then
               (let imm = get_bits inst 31 20
                in (if sign \<noteq> 0 then push_bit 12 0xfffff else 0, imm))
             else if opcode \<in> set INST_S then
               (let imm_11_5 = get_bits inst 31 25;
                    imm_4_0 = get_bits inst 11 7;
                    imm = push_bit 5 imm_11_5 OR imm_4_0
                in (if sign \<noteq> 0 then push_bit 12 0xfffff else 0, imm))
             else if opcode \<in> set INST_B then
               (let imm_12 = get_bit inst 31;
                    imm_10_5 = get_bits inst 30 25;
                    imm_4_1 = get_bits inst 11 8;
                    imm_11 = get_bits inst 7 7;
                    imm = push_bit 12 imm_12 OR push_bit 11 imm_11 OR push_bit 5 imm_10_5
                            OR push_bit 1 imm_4_1
                in (if sign \<noteq> 0 then push_bit 13 0x7ffff else 0, imm))
             else if opcode \<in> set INST_U then
               (0, push_bit 12 (get_bits inst 31 12))
             else if opcode \<in> set INST_J then
               (let imm_20 = get_bit inst 31;
                    imm_10_1 = get_bits inst 30 21;
                    imm_11 = get_bits inst 20 20;
                    imm_19_12 = get_bits inst 19 12;
                    imm = push_bit 20 imm_20 OR push_bit 12 imm_19_12 OR push_bit 11 imm_11
                            OR push_bit 1 imm_10_1
                in (if sign \<noteq> 0 then push_bit 21 0x7ff else 0, imm))
             else (0, 0))
      in sign_ext OR imm)"

text \<open>
  The immediate layouts of section 4.11, bit by bit: \<open>imm_X_bit inst n\<close> is bit \<open>n\<close> of
  the immediate of class X for the instruction word \<open>inst\<close>. Bits 32 and above are clear.
\<close>

definition imm_I_bit :: "int \<Rightarrow> nat \<Rightarrow> bool" where
  "imm_I_bit inst n =
     (if n < 12 then bit inst (n + 20) else n < 32 \<and> bit inst 31)"

definition imm_S_bit :: "int \<Rightarrow> nat \<Rightarrow> bool" where
  "imm_S_bit inst n =
     (if n < 5 then bit inst (n + 7)
      else if n < 12 then bit inst (n + 20)
      else n < 32 \<and> bit inst 31)"

definition imm_B_bit :: "int \<Rightarrow> nat \<Rightarrow> bool" where
  "imm_B_bit inst n =
     (if n = 0 then False
      else if n < 5 then bit inst (n + 7)
      else if n < 11 then bit inst (n + 20)
      else if n = 11 then bit inst 7
      else n < 32 \<and> bit inst 31)"

definition imm_U_bit :: "int \<Rightarrow> nat \<Rightarrow> bool" where
  "imm_U_bit inst n = (if n < 12 then False else n < 32 \<and> bit inst n)"

definition imm_J_bit :: "int \<Rightarrow> nat \<Rightarrow> bool" where
  "imm_J_bit inst n =
     (if n = 0 then False
      else if n < 11 then bit inst (n + 20)
      else if n = 11 then bit inst 20
      else if n < 20 then bit inst n
      else n < 32 \<and> bit inst 31)"

subsection \<open>Formatting\<close>

text \<open>
  Python's conversions of integers to text: \<open>str\<close> (also \<open>{x}\<close> in an f-string), the
  format specifications \<open>{x:03x}\<close> and \<open>{x:08x}\<close> (lower-case hexadecimal, zero-padded to
  a minimum width that counts a minus sign), and the builtin \<open>hex\<close>.
\<close>

definition digit_char :: "nat \<Rightarrow> char" where
  "digit_char d = ''0123456789abcdef'' ! d"

fun digits :: "nat \<Rightarrow> nat \<Rightarrow> string" where
  "digits b n =
     (if b < 2 \<or> n < b then [digit_char n] else digits b (n div b) @ [digit_char (n mod b)])"

definition py_str :: "int \<Rightarrow> string" where
  "py_str i = (if i < 0 then ''-'' @ digits 10 (nat (- i)) else digits 10 (nat i))"

definition zfill :: "nat \<Rightarrow> string \<Rightarrow> string" where
  "zfill w s = replicate (w - length s) (CHR ''0'') @ s"

definition py_format_x :: "nat \<Rightarrow> int \<Rightarrow> string" where
  "py_format_x w i =
     (if i < 0 then ''-'' @ zfill (w - 1) (digits 16 (nat (- i))) else zfill w (digits 16 (nat i)))"

definition py_hex :: "int \<Rightarrow> string" where
  "py_hex i = (if i < 0 then ''-0x'' @ digits 16 (nat (- i)) else ''0x'' @ digits 16 (nat i))"

subsection \<open>\<open>Disassembler.reg_name\<close>\<close>

text \<open>
  The dictionary \<open>REG_ABI_NAMES\<close> has the keys 0 to 31, in this order. A lookup of
  another key raises \<open>KeyError\<close>, which is \<open>None\<close> here.
\<close>

definition REG_ABI_NAMES :: "int \<rightharpoonup> string" where
  "REG_ABI_NAMES k =
     (if 0 \<le> k \<and> k < 32
      then Some ([''zero'', ''ra'', ''sp'', ''gp'',
                  ''tp'', ''t0'', ''t1'', ''t2'',
                  ''s0'', ''s1'', ''a0'', ''a1'',
                  ''a2'', ''a3'', ''a4'', ''a5'',
                  ''a6'', ''a7'', ''s2'', ''s3'',
                  ''s4'', ''s5'', ''s6'', ''s7'',
                  ''s8'', ''s9'', ''s10'', ''s11'',
                  ''t3'', ''t4'', ''t5'', ''t6''] ! nat k)
      else None)"

definition reg_name :: "int \<Rightarrow> string option" where
  "reg_name reg_num =
     (case REG_ABI_NAMES reg_num of
        None \<Rightarrow> None
      | Some abi \<Rightarrow> Some (''x'' @ py_str reg_num @ ''('' @ abi @ '')''))"

subsection \<open>\<open>Disassembler.disassemble\<close>\<close>

text \<open>The local function \<open>to_signed(val, bits=32)\<close>.\<close>

definition to_signed :: "int \<Rightarrow> nat \<Rightarrow> int" where
  "to_signed val bits =
     (if val AND push_bit (bits - 1) 1 \<noteq> 0 then val - push_bit bits 1 else val)"

text \<open>
  The body of the \<open>try\<close> block, one function for each arm of the \<open>if\<close>/\<open>elif\<close> chain
  over \<open>opcode\<close>. The result is \<open>Some\<close> of the returned pair; it is \<open>None\<close> when no
  \<open>return\<close> is reached in the arm or when a \<open>reg_name\<close> call raises, and in both of
  these cases control reaches the last line of \<open>disassemble\<close>.
\<close>

definition dis_OP :: "int \<Rightarrow> int \<Rightarrow> int \<Rightarrow> int \<Rightarrow> int \<Rightarrow> (string \<times> string) option" where
  "dis_OP funct3 funct7 rd rs1 rs2 =
     do {
       rd_name \<leftarrow> reg_name rd;
       rs1_name \<leftarrow> reg_name rs1;
       rs2_name \<leftarrow> reg_name rs2;
       let ops = rd_name @ '', '' @ rs1_name @ '', '' @ rs2_name;
       if funct7 = 0 then
         (if funct3 = 0 then Some (''ADD'', ''add '' @ ops)
          else if funct3 = 1 then Some (''SLL'', ''sll '' @ ops)
          else if funct3 = 2 then Some (''SLT'', ''slt '' @ ops)
          else if funct3 = 3 then Some (''SLTU'', ''sltu '' @ ops)
          else if funct3 = 4 then Some (''XOR'', ''xor '' @ ops)
          else if funct3 = 5 then Some (''SRL'', ''srl '' @ ops)
          else if funct3 = 6 then Some (''OR'', ''or '' @ ops)
          else if funct3 = 7 then Some (''AND'', ''and '' @ ops)
          else None)
       else if funct7 = 0x20 then
         (if funct3 = 0 then Some (''SUB'', ''sub '' @ ops)
          else if funct3 = 5 then Some (''SRA'', ''sra '' @ ops)
          else None)
       else None
     }"

definition dis_OP_IMM :: "int \<Rightarrow> int \<Rightarrow> int \<Rightarrow> int \<Rightarrow> int \<Rightarrow> int \<Rightarrow> (string \<times> string) option"
  where
  "dis_OP_IMM inst funct3 funct7 rd rs1 imm_signed =
     do {
       rd_name \<leftarrow> reg_name rd;
       rs1_name \<leftarrow> reg_name rs1;
       let shamt = get_bits inst 24 20;
       let regs = rd_name @ '', '' @ rs1_name @ '', '';
       if funct3 = 0 then Some (''ADDI'', ''addi '' @ regs @ py_str imm_signed)
       else if funct3 = 2 then Some (''SLTI'', ''slti '' @ regs @ py_str imm_signed)
       else if funct3 = 3 then Some (''SLTIU'', ''sltiu '' @ regs @ py_str imm_signed)
       else if funct3 = 4 then Some (''XORI'', ''xori '' @ regs @ py_str imm_signed)
       else if funct3 = 6 then Some (''ORI'', ''ori '' @ regs @ py_str imm_signed)
       else if funct3 = 7 then Some (''ANDI'', ''andi '' @ regs @ py_str imm_signed)
       else if funct3 = 1 then Some (''SLLI'', ''slli '' @ regs @ py_str shamt)
       else if funct3 = 5 then
         (if funct7 = 0 then Some (''SRLI'', ''srli '' @ regs @ py_str shamt)
          else if funct7 = 0x20 then Some (''SRAI'', ''srai '' @ regs @ py_str shamt)
          else None)
       else None
     }"

definition dis_LOAD :: "int \<Rightarrow> int \<Rightarrow> int \<Rightarrow> int \<Rightarrow> (string \<times> string) option" where
  "dis_LOAD funct3 rd rs1 imm_signed =
     do {
       rd_name \<leftarrow> reg_name rd;
       rs1_name \<leftarrow> reg_name rs1;
       let ops = rd_name @ '', '' @ py_str imm_signed @ ''('' @ rs1_name @ '')'';
       if funct3 = 0 then Some (''LB'', ''lb '' @ ops)
       else if funct3 = 1 then Some (''LH'', ''lh '' @ ops)
       else if funct3 = 2 then Some (''LW'', ''lw '' @ ops)
       else if funct3 = 4 then Some (''LBU'', ''lbu '' @ ops)
       else if funct3 = 5 then Some (''LHU'', ''lhu '' @ ops)
       else None
     }"

definition dis_STORE :: "int \<Rightarrow> int \<Rightarrow> int \<Rightarrow> int \<Rightarrow> (string \<times> string) option" where
  "dis_STORE funct3 rs1 rs2 imm_signed =
     do {
       rs1_name \<leftarrow> reg_name rs1;
       rs2_name \<leftarrow> reg_name rs2;
       let ops = rs2_name @ '', '' @ py_str imm_signed @ ''('' @ rs1_name @ '')'';
       if funct3 = 0 then Some (''SB'', ''sb '' @ ops)
       else if funct3 = 1 then Some (''SH'', ''sh '' @ ops)
       else if funct3 = 2 then Some (''SW'', ''sw '' @ ops)
       else None
     }"

definition dis_BRANCH :: "int \<Rightarrow> int \<Rightarrow> int \<Rightarrow> int \<Rightarrow> (string \<times> string) option" where
  "dis_BRANCH funct3 rs1 rs2 imm_signed =
     do {
       rs1_name \<leftarrow> reg_name rs1;
       rs2_name \<leftarrow> reg_name rs2;
       let ops = rs1_name @ '', '' @ rs2_name @ '', '' @ py_str imm_signed;
       if funct3 = 0 then Some (''BEQ'', ''beq '' @ ops)
       else if funct3 = 1 then Some (''BNE'', ''bne '' @ ops)
       else if funct3 = 4 then Some (''BLT'', ''blt '' @ ops)
       else if funct3 = 5 then Some (''BGE'', ''bge '' @ ops)
       else if funct3 = 6 then Some (''BLTU'', ''bltu '' @ ops)
       else if funct3 = 7 then Some (''BGEU'', ''bgeu '' @ ops)
       else None
     }"

definition dis_SYSTEM :: "int \<Rightarrow> int \<Rightarrow> int \<Rightarrow> int \<Rightarrow> (string \<times> string) option" where
  "dis_SYSTEM inst funct3 rd rs1 =
     do {
       rd_name \<leftarrow> reg_name rd;
       rs1_name \<leftarrow> reg_name rs1;
       let csr = get_bits inst 31 20;
       let pre = rd_name @ '', 0x'' @ py_format_x 3 csr @ '', '';
       if funct3 = CSR_F3_CSRRW then Some (''CSRRW'', ''csrrw '' @ pre @ rs1_name)
       else if funct3 = CSR_F3_CSRRS then Some (''CSRRS'', ''csrrs '' @ pre @ rs1_name)
       else if funct3 = CSR_F3_CSRRC then Some (''CSRRC'', ''csrrc '' @ pre @ rs1_name)
       else if funct3 = CSR_F3_CSRRWI then Some (''CSRRWI'', ''csrrwi '' @ pre @ py_str rs1)
       else if funct3 = CSR_F3_CSRRSI then Some (''CSRRSI'', ''csrrsi '' @ pre @ py_str rs1)
       else if funct3 = CSR_F3_CSRRCI then Some (''CSRRCI'', ''csrrci '' @ pre @ py_str rs1)
       else None
     }"

definition dis_try :: "int \<Rightarrow> (string \<times> string) option" where
  "dis_try inst =
     (let opcode = get_bits inst 6 2;
          funct3 = get_bits inst 14 12;
          funct7 = get_bits inst 31 25;
          rd = get_bits inst 11 7;
          rs1 = get_bits inst 19 15;
          rs2 = get_bits inst 24 20;
          imm = decode_imm opcode inst;
          imm_signed = to_signed imm 32
      in if opcode = OPCODE_OP then dis_OP funct3 funct7 rd rs1 rs2
         else if opcode = OPCODE_OP_IMM then dis_OP_IMM inst funct3 funct7 rd rs1 imm_signed
         else if opcode = OPCODE_LOAD then dis_LOAD funct3 rd rs1 imm_signed
         else if opcode = OPCODE_STORE then dis_STORE funct3 rs1 rs2 imm_signed
         else if opcode = OPCODE_BRANCH then dis_BRANCH funct3 rs1 rs2 imm_signed
         else if opcode = OPCODE_JAL then
           do { rd_name \<leftarrow> reg_name rd;
                Some (''JAL'', ''jal '' @ rd_name @ '', '' @ py_str imm_signed) }
         else if opcode = OPCODE_JALR then
           do { rd_name \<leftarrow> reg_name rd;
                rs1_name \<leftarrow> reg_name rs1;
                Some (''JALR'', ''jalr '' @ rd_name @ '', '' @ rs1_name @ '', ''
                                  @ py_str imm_signed) }
         else if opcode = OPCODE_LUI then
           do { rd_name \<leftarrow> reg_name rd;
                Some (''LUI'', ''lui '' @ rd_name @ '', '' @ py_str (drop_bit 12 imm)) }
         else if opcode = OPCODE_AUIPC then
           do { rd_name \<leftarrow> reg_name rd;
                Some (''AUIPC'', ''auipc '' @ rd_name @ '', '' @ py_str (drop_bit 12 imm)) }
         else if opcode = OPCODE_SYSTEM then dis_SYSTEM inst funct3 rd rs1
         else None)"

definition disassemble :: "int \<Rightarrow> string \<times> string" where
  "disassemble inst =
     (if inst = 0x00000013 then (''NOP'', ''nop (addi x0, x0, 0)'')
      else if inst = 0x73 then (''ECALL'', ''ecall'')
      else if inst = 0x30200073 then (''MRET'', ''mret'')
      else if inst AND 0x3 \<noteq> 0x3 then
        (''INVALID'', ''invalid instruction (0x'' @ py_format_x 8 inst @ '')'')
      else case dis_try inst of
             Some r \<Rightarrow> r
           | None \<Rightarrow> (''UNKNOWN'', ''unknown instruction (0x'' @ py_format_x 8 inst @ '')''))"

text \<open>
  The words the disassembler names: the three special words, and the words with the low
  two bits set whose \<open>opcode\<close>, \<open>funct3\<close> and \<open>funct7\<close> fields select one of the
  mnemonics of \<open>disassemble\<close>.
\<close>

definition recognized :: "int \<Rightarrow> bool" where
  "recognized inst \<longleftrightarrow>
     inst = 0x00000013 \<or> inst = 0x73 \<or> inst = 0x30200073 \<or>
     (inst AND 0x3 = 0x3 \<and>
      (let opcode = get_bits inst 6 2;
           funct3 = get_bits inst 14 12;
           funct7 = get_bits inst 31 25
       in (opcode = OPCODE_OP \<and> (funct7 = 0 \<or> (funct7 = 0x20 \<and> funct3 \<in> {0, 5}))) \<or>
          (opcode = OPCODE_OP_IMM \<and> (funct3 \<in> {0, 1, 2, 3, 4, 6, 7} \<or> funct7 \<in> {0, 0x20})) \<or>
          (opcode = OPCODE_LOAD \<and> funct3 \<in> {0, 1, 2, 4, 5}) \<or>
          (opcode = OPCODE_STORE \<and> funct3 \<in> {0, 1, 2}) \<or>
          (opcode = OPCODE_BRANCH \<and> funct3 \<in> {0, 1, 4, 5, 6, 7}) \<or>
          opcode \<in> {OPCODE_JAL, OPCODE_JALR, OPCODE_LUI, OPCODE_AUIPC} \<or>
          (opcode = OPCODE_SYSTEM \<and> funct3 \<in> {1, 2, 3, 5, 6, 7})))"

text \<open>The \<open>try\<close> block returned a pair whose mnemonic is not \<open>"UNKNOWN"\<close>.\<close>

definition named :: "(string \<times> string) option \<Rightarrow> bool" where
  "named r = (case r of None \<Rightarrow> False | Some (m, d) \<Rightarrow> m \<noteq> ''UNKNOWN'')"

section \<open>Model interface (\<open>PipelinedModel\<close> in \<open>pyv/models/pipelined.py\<close>)\<close>

text \<open>
  The exceptions the interface functions can end in. \<open>InvalidBinary\<close> is the error of
  section 7 of the specification; no function of the sources raises it.
\<close>

datatype error = FileNotFoundError | IndexError | InvalidBinary

text \<open>A Python value in a returned list: an integer or a string.\<close>

datatype pyval = PyInt int | PyStr string

text \<open>
  Modelled from the spec: \<open>core.mem.mem\<close>, the byte array of \<open>Memory\<close> in \<open>pyv/mem.py\<close>,
  which is not among the sources: a Python list with one integer for each byte
  (section 3: a flat byte array; \<open>Memory(8 * 1024)\<close> in \<open>Pipelined.__init__\<close>).
\<close>

type_synonym memory = "int list"

definition Memory :: "nat \<Rightarrow> memory" where
  "Memory n = replicate n 0"

text \<open>\<open>xs[i]\<close>: a negative index counts from the end, an index out of range raises.\<close>

definition py_getitem :: "'a list \<Rightarrow> int \<Rightarrow> error + 'a" where
  "py_getitem xs i =
     (if 0 \<le> i \<and> i < int (length xs) then Inr (xs ! nat i)
      else if i < 0 \<and> - int (length xs) \<le> i then Inr (xs ! nat (int (length xs) + i))
      else Inl IndexError)"

text \<open>\<open>xs[:n] = ys\<close> for \<open>n \<ge> 0\<close>: the first \<open>n\<close> elements (all, when there are fewer)
  are replaced by \<open>ys\<close>.\<close>

definition py_set_prefix :: "'a list \<Rightarrow> nat \<Rightarrow> 'a list \<Rightarrow> 'a list" where
  "py_set_prefix xs n ys = ys @ drop n xs"

text \<open>\<open>range(0, n)\<close>.\<close>

definition py_range :: "int \<Rightarrow> int list" where
  "py_range n = map int [0..<nat n]"

text \<open>
  The list comprehension \<open>[hex(mem[addr + i]) for i in ...]\<close>: elements are computed in
  order and the first failing index ends the comprehension with its exception.
\<close>

fun hex_bytes :: "memory \<Rightarrow> int \<Rightarrow> int list \<Rightarrow> error + pyval list" where
  "hex_bytes mem addr [] = Inr []"
| "hex_bytes mem addr (i # is) =
     (case py_getitem mem (addr + i) of
        Inl e \<Rightarrow> Inl e
      | Inr b \<Rightarrow> (case hex_bytes mem addr is of
                    Inl e \<Rightarrow> Inl e
                  | Inr r \<Rightarrow> Inr (PyStr (py_hex b) # r)))"

definition readDataMem :: "memory \<Rightarrow> int \<Rightarrow> int \<Rightarrow> error + pyval list" where
  "readDataMem mem addr nbytes = hex_bytes mem addr (py_range nbytes)"

definition readInstMem :: "memory \<Rightarrow> int \<Rightarrow> int \<Rightarrow> error + pyval list" where
  "readInstMem mem addr nbytes = hex_bytes mem addr (py_range nbytes)"

text \<open>
  \<open>load_binary\<close>: the file system is a map from paths to the bytes of the file there.
  \<open>open\<close> raises \<open>FileNotFoundError\<close> for a path with no file; otherwise the bytes are
  assigned to the slice \<open>mem[:len(inst)]\<close>. The result is the new memory.
\<close>

definition load_binary :: "(string \<rightharpoonup> int list) \<Rightarrow> memory \<Rightarrow> string \<Rightarrow> error + memory" where
  "load_binary fs mem file =
     (case fs file of
        None \<Rightarrow> Inl FileNotFoundError
      | Some ba \<Rightarrow> (let inst = ba in Inr (py_set_prefix mem (length inst) inst)))"

section \<open>A machine for the ADDI and BEQ fragment\<close>

text \<open>
  Modelled from the spec: an instance of the stage parameters for the instructions ADDI
  and BEQ, after sections 4.2 to 4.7, over a register file \<open>int \<Rightarrow> int\<close>. ID extracts
  the register indices, reads the register file and computes the immediate with
  \<open>decode_imm\<close>; EX adds \<open>rs1\<close> and \<open>imm\<close> for ADDI, and for BEQ compares \<open>rs1\<close> and
  \<open>rs2\<close> and computes the target \<open>pc + imm\<close>; MEM passes the ALU result through; WB
  writes \<open>rd\<close> when \<open>we\<close> holds and \<open>rd\<close> is not 0; the branch unit selects the
  target on a taken branch and \<open>pc + 4\<close> otherwise. Instruction fetch is not part of
  the fragment: IF delivers NOPs. The machine is used to instantiate the theorem about
  the branch shadow at a concrete state.
\<close>

definition fragment_ID :: "(int \<Rightarrow> int) \<Rightarrow> MEMWB_t \<Rightarrow> IFID_t \<Rightarrow> IDEX_t" where
  "fragment_ID regs memwb ifid =
     (let inst = ifid_inst ifid;
          opcode = get_bits inst 6 2;
          funct3 = get_bits inst 14 12;
          rd = get_bits inst 11 7;
          rs1 = get_bits inst 19 15;
          rs2 = get_bits inst 24 20;
          imm = to_signed (decode_imm opcode inst) 32
      in if opcode = OPCODE_OP_IMM \<and> funct3 = 0 then
           IDEX_zero\<lparr>idex_pc := ifid_pc ifid, idex_rs1 := regs rs1, idex_imm := imm,
             idex_rd := rd, idex_rs1_idx := rs1, idex_opcode := opcode, idex_we := True\<rparr>
         else if opcode = OPCODE_BRANCH \<and> funct3 = 0 then
           IDEX_zero\<lparr>idex_pc := ifid_pc ifid, idex_rs1 := regs rs1, idex_rs2 := regs rs2,
             idex_imm := imm, idex_rs1_idx := rs1, idex_rs2_idx := rs2, idex_opcode := opcode,
             idex_is_branch := True\<rparr>
         else IDEX_zero)"

definition fragment_EX :: "IDEX_t \<Rightarrow> EXMEM_t" where
  "fragment_EX idex =
     (if idex_is_branch idex then
        EXMEM_zero\<lparr>exmem_pc4 := idex_pc idex + 4, exmem_alu_res := idex_pc idex + idex_imm idex,
          exmem_take_branch := (idex_rs1 idex = idex_rs2 idex)\<rparr>
      else
        EXMEM_zero\<lparr>exmem_pc4 := idex_pc idex + 4, exmem_alu_res := idex_rs1 idex + idex_imm idex,
          exmem_rd := idex_rd idex, exmem_we := idex_we idex\<rparr>)"

definition fragment_stages :: "(int \<Rightarrow> int) stages" where
  "fragment_stages =
     \<lparr>IF_stage = (\<lambda>regs npc. \<lparr>ifid_inst = 0x00000013, ifid_pc = npc\<rparr>),
      ID_stage = fragment_ID,
      EX_stage = fragment_EX,
      MEM_stage = (\<lambda>regs exmem. MEMWB_zero\<lparr>memwb_pc4 := exmem_pc4 exmem,
                     memwb_alu_res := exmem_alu_res exmem,
                     memwb_rd := exmem_rd exmem, memwb_we := exmem_we exmem\<rparr>),
      BranchUnit = (\<lambda>regs ifid pc take_branch target. if take_branch then target else pc + 4),
      rest_tick = (\<lambda>regs pc npc ifid exmem memwb.
                     if memwb_we memwb \<and> memwb_rd memwb \<noteq> 0
                     then regs(memwb_rd memwb := memwb_alu_res memwb) else regs)\<rparr>"

text \<open>
  The pipeline state in the cycle in which \<open>beq x1, x1, 12\<close>, fetched from address 4, is
  in ID/EX with \<open>x1 = 1\<close>, and the instruction at \<open>pc + 4 = 8\<close>, \<open>addi x2, x0, 42\<close>
  (\<open>0x02A00113\<close>), is in IF/ID. EX/MEM and MEM/WB hold bubbles.
\<close>

definition branch_in_EX :: "(int \<Rightarrow> int) core" where
  "branch_in_EX =
     \<lparr>pc_reg = 8,
      ifid_reg = \<lparr>ifid_inst = 0x02A00113, ifid_pc = 8\<rparr>,
      idex_reg = IDEX_zero\<lparr>idex_pc := 4, idex_rs1 := 1, idex_rs2 := 1, idex_imm := 12,
                   idex_rs1_idx := 1, idex_rs2_idx := 1, idex_opcode := OPCODE_BRANCH,
                   idex_is_branch := True\<rparr>,
      exmem_reg = EXMEM_zero,
      memwb_reg = MEMWB_zero,
      rest = (\<lambda>r. 0)(1 := 1)\<rparr>"

section \<open>Auxiliary lemmas\<close>

lemmas OPCODES_defs = OPCODE_LOAD_def OPCODE_OP_IMM_def OPCODE_AUIPC_def OPCODE_STORE_def
  OPCODE_OP_def OPCODE_LUI_def OPCODE_BRANCH_def OPCODE_JALR_def OPCODE_JAL_def
  OPCODE_SYSTEM_def

lemmas INST_defs = INST_I_def INST_S_def INST_B_def INST_U_def INST_J_def

lemmas CSR_F3_defs = CSR_F3_CSRRW_def CSR_F3_CSRRS_def CSR_F3_CSRRC_def CSR_F3_CSRRWI_def
  CSR_F3_CSRRSI_def CSR_F3_CSRRCI_def

lemmas hazard_defs = HazardUnit_process_def data_hazards_def reads_reg_def
  stall_and_bubble_def Let_def

subsection \<open>The hazard unit\<close>

text \<open>
  When the hazard unit stalls: the IF/ID word must have its low two bits set, and then
  exactly one of the three checks applies, chosen by the ID/EX record.
\<close>

lemma HazardUnit_stall_iff:
  "stall_pc_o (HazardUnit_process ifid idex exmem tb) \<longleftrightarrow>
     ifid_inst ifid AND 0x3 = 0x3 \<and>
     (if idex_mem idex = 1 then idex_rd idex \<noteq> 0 \<and> reads_reg (ifid_inst ifid) (idex_rd idex)
      else if idex_we idex \<and> idex_rd idex \<noteq> 0 then reads_reg (ifid_inst ifid) (idex_rd idex)
      else exmem_we exmem \<and> exmem_rd exmem \<noteq> 0 \<and> reads_reg (ifid_inst ifid) (exmem_rd exmem))"
  by (auto simp: hazard_defs)

lemma HazardUnit_other_outputs:
  "stall_ifid_o (HazardUnit_process ifid idex exmem tb) =
     stall_pc_o (HazardUnit_process ifid idex exmem tb)"
  "flush_idex_o (HazardUnit_process ifid idex exmem tb) =
     (stall_pc_o (HazardUnit_process ifid idex exmem tb) \<or> tb)"
  "flush_ifid_o (HazardUnit_process ifid idex exmem tb) = tb"
  "stall_idex_o (HazardUnit_process ifid idex exmem tb) = False"
  "stall_exmem_o (HazardUnit_process ifid idex exmem tb) = False"
  "stall_memwb_o (HazardUnit_process ifid idex exmem tb) = False"
  "flush_exmem_o (HazardUnit_process ifid idex exmem tb) = False"
  by (auto simp: hazard_defs)

subsection \<open>One clock cycle\<close>

lemma pc_cycle:
  "pc_reg (cycle st s) =
     (if stall_pc_o (HazardUnit_process (ifid_reg s) (idex_reg s) (exmem_reg s)
            (exmem_take_branch (exmem_reg s)))
      then pc_reg s
      else BranchUnit st (rest s) (ifid_reg s) (pc_reg s) (exmem_take_branch (exmem_reg s))
             (exmem_alu_res (exmem_reg s)))"
  by (simp add: cycle_def connects_pc_def connects_signals_def Reg_tick_def Let_def)

lemma exmem_cycle: "exmem_reg (cycle st s) = EX_stage st (idex_reg s)"
  by (simp add: cycle_def connects_signals_def Let_def HazardUnit_other_outputs
        EXMEMReg_process_def Reg_tick_def)

lemma memwb_cycle: "memwb_reg (cycle st s) = MEM_stage st (rest s) (exmem_reg s)"
  by (simp add: cycle_def connects_signals_def Let_def HazardUnit_other_outputs
        MEMWBReg_process_def Reg_tick_def)

lemma rest_cycle:
  "rest (cycle st s) =
     rest_tick st (rest s) (pc_reg s)
       (BranchUnit st (rest s) (ifid_reg s) (pc_reg s) (exmem_take_branch (exmem_reg s))
          (exmem_alu_res (exmem_reg s)))
       (ifid_reg s) (exmem_reg s) (memwb_reg s)"
  by (simp add: cycle_def connects_signals_def Let_def)

lemma idex_cycle:
  "idex_reg (cycle st s) =
     (if stall_pc_o (HazardUnit_process (ifid_reg s) (idex_reg s) (exmem_reg s)
            (exmem_take_branch (exmem_reg s))) \<or> exmem_take_branch (exmem_reg s)
      then IDEX_zero
      else ID_stage st (rest s) (memwb_reg s) (ifid_reg s))"
  by (cases "exmem_take_branch (exmem_reg s)")
     (simp_all add: cycle_def connects_signals_def Let_def HazardUnit_other_outputs
        IDEXReg_process_def Reg_tick_def)

text \<open>
  The ID/EX record of \<open>branch_in_EX\<close> is the decoding of \<open>beq x1, x1, 12\<close>
  (\<open>0x00108663\<close>) fetched from address 4, with \<open>x1 = 1\<close>.
\<close>

lemma branch_in_EX_decoded:
  "fragment_ID ((\<lambda>r. 0)(1 := 1)) MEMWB_zero \<lparr>ifid_inst = 0x00108663, ifid_pc = 4\<rparr>
     = idex_reg branch_in_EX"
  by (simp add: fragment_ID_def branch_in_EX_def get_bits_def decode_imm_def get_bit_def
        to_signed_def INST_defs OPCODES_defs)

lemma flushed_cycle:
  assumes "exmem_take_branch (exmem_reg s)"
  shows "ifid_reg (cycle st s) = IFID_bubble" and "idex_reg (cycle st s) = IDEX_zero"
  using assms
  by (simp_all add: cycle_def connects_signals_def Let_def HazardUnit_other_outputs
        IFIDReg_process_def IDEXReg_process_def Reg_tick_def IFID_bubble_def)

section \<open>The branch shadow\<close>

text \<open>
  Claim C1. The claim is that after a taken branch the instructions at \<open>pc + 4\<close> and
  \<open>pc + 8\<close> have no architectural effect, the flush being raised in the cycle in which
  EX resolves the branch. \<open>connects\<close> takes \<open>take_branch\<close> from the output of the
  EX/MEM register, so the signal is raised one cycle later. For every implementation of
  the stages: when EX resolves a taken branch while no data hazard stalls the
  instruction in IF/ID (the instruction fetched after the branch), that instruction is
  decoded into ID/EX at the clock edge; in the next cycle \<open>take_branch\<close> is up and
  IF/ID and ID/EX are loaded with bubbles, but EX/MEM is loaded with the EX result of
  that instruction, and one cycle later MEM/WB is loaded with its MEM result. The
  instruction behind the branch is not flushed and reaches write-back.
\<close>

theorem C1_branch_shadow_reaches_writeback:
  assumes "exmem_take_branch (EX_stage st (idex_reg s))"
    and "\<not> exmem_take_branch (exmem_reg s)"
    and "\<not> stall_pc_o (HazardUnit_process (ifid_reg s) (idex_reg s) (exmem_reg s) False)"
  shows "idex_reg (cycle st s) = ID_stage st (rest s) (memwb_reg s) (ifid_reg s) \<and>
         exmem_take_branch (exmem_reg (cycle st s)) \<and>
         ifid_reg (cycle st (cycle st s)) = IFID_bubble \<and>
         idex_reg (cycle st (cycle st s)) = IDEX_zero \<and>
         exmem_reg (cycle st (cycle st s)) =
           EX_stage st (ID_stage st (rest s) (memwb_reg s) (ifid_reg s)) \<and>
         memwb_reg (cycle st (cycle st (cycle st s))) =
           MEM_stage st (rest (cycle st (cycle st s)))
             (EX_stage st (ID_stage st (rest s) (memwb_reg s) (ifid_reg s)))"
proof -
  have q: "exmem_take_branch (exmem_reg s) = False"
    using assms(2) by simp
  have d: "idex_reg (cycle st s) = ID_stage st (rest s) (memwb_reg s) (ifid_reg s)"
    using assms(3) by (simp add: idex_cycle q)
  have t: "exmem_take_branch (exmem_reg (cycle st s))"
    using assms(1) by (simp add: exmem_cycle)
  show ?thesis
    using d t by (simp add: memwb_cycle exmem_cycle flushed_cycle)
qed

text \<open>
  Claim C1, at the state \<open>branch_in_EX\<close> of the machine \<open>fragment_stages\<close>: the taken
  \<open>beq\<close> from address 4 is in EX and \<open>addi x2, x0, 42\<close>, the instruction at \<open>pc + 4\<close>,
  is in IF/ID. Three cycles later MEM/WB holds the result of the \<open>addi\<close> with \<open>we\<close> set,
  and after the fourth cycle register \<open>x2\<close> is 42.
\<close>

theorem C1_branch_shadow_reaches_writeback_witness:
  "exmem_take_branch (EX_stage fragment_stages (idex_reg branch_in_EX)) \<and>
   \<not> exmem_take_branch (exmem_reg branch_in_EX) \<and>
   \<not> stall_pc_o (HazardUnit_process (ifid_reg branch_in_EX) (idex_reg branch_in_EX)
        (exmem_reg branch_in_EX) False) \<and>
   ifid_pc (ifid_reg branch_in_EX) = idex_pc (idex_reg branch_in_EX) + 4 \<and>
   exmem_reg (cycle fragment_stages (cycle fragment_stages branch_in_EX)) =
     EXMEM_zero\<lparr>exmem_pc4 := 12, exmem_alu_res := 42, exmem_rd := 2, exmem_we := True\<rparr> \<and>
   memwb_reg (cycle fragment_stages (cycle fragment_stages (cycle fragment_stages branch_in_EX)))
     = MEMWB_zero\<lparr>memwb_pc4 := 12, memwb_alu_res := 42, memwb_rd := 2, memwb_we := True\<rparr> \<and>
   rest (cycle fragment_stages (cycle fragment_stages (cycle fragment_stages
           (cycle fragment_stages branch_in_EX)))) 2 = 42"
proof -
  have h1: "exmem_take_branch (EX_stage fragment_stages (idex_reg branch_in_EX))"
    by (simp add: fragment_stages_def fragment_EX_def branch_in_EX_def)
  have h2: "\<not> exmem_take_branch (exmem_reg branch_in_EX)"
    by (simp add: branch_in_EX_def EXMEM_zero_def)
  have h3: "\<not> stall_pc_o (HazardUnit_process (ifid_reg branch_in_EX) (idex_reg branch_in_EX)
        (exmem_reg branch_in_EX) False)"
    by (simp add: HazardUnit_stall_iff branch_in_EX_def EXMEM_zero_def IDEX_zero_def)
  note c = C1_branch_shadow_reaches_writeback [OF h1 h2 h3]
  have d: "ID_stage fragment_stages (rest branch_in_EX) (memwb_reg branch_in_EX)
      (ifid_reg branch_in_EX) =
      IDEX_zero\<lparr>idex_pc := 8, idex_rs1 := 0, idex_imm := 42, idex_rd := 2, idex_rs1_idx := 0,
        idex_opcode := OPCODE_OP_IMM, idex_we := True\<rparr>"
    by (simp add: fragment_stages_def fragment_ID_def branch_in_EX_def get_bits_def
          decode_imm_def get_bit_def to_signed_def INST_defs OPCODES_defs)
  have e: "EX_stage fragment_stages
      (IDEX_zero\<lparr>idex_pc := 8, idex_rs1 := 0, idex_imm := 42, idex_rd := 2, idex_rs1_idx := 0,
        idex_opcode := OPCODE_OP_IMM, idex_we := True\<rparr>) =
      EXMEM_zero\<lparr>exmem_pc4 := 12, exmem_alu_res := 42, exmem_rd := 2, exmem_we := True\<rparr>"
    by (simp add: fragment_stages_def fragment_EX_def IDEX_zero_def)
  have m: "MEM_stage fragment_stages r
      (EXMEM_zero\<lparr>exmem_pc4 := 12, exmem_alu_res := 42, exmem_rd := 2, exmem_we := True\<rparr>) =
      MEMWB_zero\<lparr>memwb_pc4 := 12, memwb_alu_res := 42, memwb_rd := 2, memwb_we := True\<rparr>"
    for r
    by (simp add: fragment_stages_def EXMEM_zero_def)
  have w: "rest_tick fragment_stages r p n i x
      (MEMWB_zero\<lparr>memwb_pc4 := 12, memwb_alu_res := 42, memwb_rd := 2, memwb_we := True\<rparr>) 2
      = 42" for r p n i x
    by (simp add: fragment_stages_def MEMWB_zero_def)
  have p: "ifid_pc (ifid_reg branch_in_EX) = idex_pc (idex_reg branch_in_EX) + 4"
    by (simp add: branch_in_EX_def)
  show ?thesis
    using h1 h2 h3 p c
    by (simp add: d e m w rest_cycle [of fragment_stages
          "cycle fragment_stages (cycle fragment_stages (cycle fragment_stages branch_in_EX))"])
qed

section \<open>Data hazards\<close>

text \<open>
  Claim C2. The claim is that a register writer in EX/MEM whose \<open>rd\<close> the IF/ID
  instruction reads always stalls, whatever ID/EX holds. The check against EX/MEM is the
  \<open>elif\<close> arm of the check against ID/EX, so it is skipped whenever ID/EX writes a
  register, also a register that IF/ID does not read. Here IF/ID holds
  \<open>addi x2, x1, 0\<close> (\<open>0x00008113\<close>), EX/MEM writes \<open>x1\<close> and ID/EX writes \<open>x3\<close>: the
  premises of the claim hold and the unit raises no signal at all.
\<close>

theorem C2_exmem_hazard_skipped:
  "exmem_we (EXMEM_zero\<lparr>exmem_rd := 1, exmem_we := True\<rparr>) \<and>
   exmem_rd (EXMEM_zero\<lparr>exmem_rd := 1, exmem_we := True\<rparr>) \<noteq> 0 \<and>
   0x00008113 AND 0x3 = (0x3 :: int) \<and>
   reads_reg 0x00008113 (exmem_rd (EXMEM_zero\<lparr>exmem_rd := 1, exmem_we := True\<rparr>)) \<and>
   HazardUnit_process \<lparr>ifid_inst = 0x00008113, ifid_pc = 8\<rparr>
       (IDEX_zero\<lparr>idex_rd := 3, idex_we := True\<rparr>)
       (EXMEM_zero\<lparr>exmem_rd := 1, exmem_we := True\<rparr>) False
     = \<lparr>stall_pc_o = False, stall_ifid_o = False, stall_idex_o = False,
        stall_exmem_o = False, stall_memwb_o = False, flush_ifid_o = False,
        flush_idex_o = False, flush_exmem_o = False\<rparr>"
  by (simp add: hazard_defs IDEX_zero_def EXMEM_zero_def needs_rs1_def needs_rs2_def
        OPCODES_defs)

text \<open>
  Claim C3, as stated: a LOAD in ID/EX with \<open>rd \<noteq> 0\<close> that the IF/ID instruction
  reads raises \<open>stall_pc\<close>, \<open>stall_ifid\<close> and \<open>flush_idex\<close>. The unit looks at the IF/ID
  word only when its low two bits are \<open>11\<close>. The word \<open>0x00008110\<close> has the opcode
  field of OP-IMM and \<open>rs1 = 1\<close> but the low bits \<open>00\<close>: with a LOAD to \<open>x1\<close> in ID/EX
  the premises of the claim hold and none of the three signals is raised.
\<close>

theorem C3_invalid_word_counterexample:
  "idex_mem (IDEX_zero\<lparr>idex_rd := 1, idex_we := True, idex_mem := 1\<rparr>) = 1 \<and>
   idex_rd (IDEX_zero\<lparr>idex_rd := 1, idex_we := True, idex_mem := 1\<rparr>) \<noteq> 0 \<and>
   reads_reg 0x00008110 (idex_rd (IDEX_zero\<lparr>idex_rd := 1, idex_we := True, idex_mem := 1\<rparr>)) \<and>
   \<not> stall_pc_o (HazardUnit_process \<lparr>ifid_inst = 0x00008110, ifid_pc = 4\<rparr>
        (IDEX_zero\<lparr>idex_rd := 1, idex_we := True, idex_mem := 1\<rparr>) EXMEM_zero False) \<and>
   \<not> stall_ifid_o (HazardUnit_process \<lparr>ifid_inst = 0x00008110, ifid_pc = 4\<rparr>
        (IDEX_zero\<lparr>idex_rd := 1, idex_we := True, idex_mem := 1\<rparr>) EXMEM_zero False) \<and>
   \<not> flush_idex_o (HazardUnit_process \<lparr>ifid_inst = 0x00008110, ifid_pc = 4\<rparr>
        (IDEX_zero\<lparr>idex_rd := 1, idex_we := True, idex_mem := 1\<rparr>) EXMEM_zero False)"
  by (simp add: hazard_defs IDEX_zero_def EXMEM_zero_def needs_rs1_def needs_rs2_def
        OPCODES_defs)

text \<open>
  Claim C3, amended: for every input state of \<open>HazardUnit.process\<close> in which the IF/ID
  word has its low two bits set (\<open>inst & 3 = 3\<close>), the ID/EX record holds a LOAD
  (\<open>mem = 1\<close>) with destination \<open>rd \<noteq> 0\<close>, and the IF/ID instruction reads that
  register as \<open>rs1\<close> (if its opcode uses \<open>rs1\<close>) or as \<open>rs2\<close> (if it uses \<open>rs2\<close>), the
  outputs satisfy \<open>stall_pc = stall_ifid = flush_idex = true\<close>.
\<close>

theorem C3_load_use_stall:
  assumes "ifid_inst ifid AND 0x3 = 0x3"
    and "idex_mem idex = 1"
    and "idex_rd idex \<noteq> 0"
    and "reads_reg (ifid_inst ifid) (idex_rd idex)"
  shows "stall_pc_o (HazardUnit_process ifid idex exmem take_branch) \<and>
         stall_ifid_o (HazardUnit_process ifid idex exmem take_branch) \<and>
         flush_idex_o (HazardUnit_process ifid idex exmem take_branch)"
  using assms by (auto simp: hazard_defs)

text \<open>
  Claim C3, at \<open>lw x5, 0(x10)\<close> in ID/EX and \<open>add x6, x5, x7\<close> (\<open>0x00728333\<close>) in IF/ID.
\<close>

theorem C3_load_use_stall_witness:
  "0x00728333 AND 0x3 = (0x3 :: int) \<and>
   idex_mem (IDEX_zero\<lparr>idex_rd := 5, idex_we := True, idex_mem := 1\<rparr>) = 1 \<and>
   idex_rd (IDEX_zero\<lparr>idex_rd := 5, idex_we := True, idex_mem := 1\<rparr>) \<noteq> 0 \<and>
   reads_reg 0x00728333 (idex_rd (IDEX_zero\<lparr>idex_rd := 5, idex_we := True, idex_mem := 1\<rparr>)) \<and>
   stall_pc_o (HazardUnit_process \<lparr>ifid_inst = 0x00728333, ifid_pc = 4\<rparr>
       (IDEX_zero\<lparr>idex_rd := 5, idex_we := True, idex_mem := 1\<rparr>) EXMEM_zero False) \<and>
   stall_ifid_o (HazardUnit_process \<lparr>ifid_inst = 0x00728333, ifid_pc = 4\<rparr>
       (IDEX_zero\<lparr>idex_rd := 5, idex_we := True, idex_mem := 1\<rparr>) EXMEM_zero False) \<and>
   flush_idex_o (HazardUnit_process \<lparr>ifid_inst = 0x00728333, ifid_pc = 4\<rparr>
       (IDEX_zero\<lparr>idex_rd := 5, idex_we := True, idex_mem := 1\<rparr>) EXMEM_zero False)"
proof -
  let ?ifid = "\<lparr>ifid_inst = 0x00728333, ifid_pc = 4\<rparr>"
  let ?idex = "IDEX_zero\<lparr>idex_rd := 5, idex_we := True, idex_mem := 1\<rparr>"
  have h1: "ifid_inst ?ifid AND 0x3 = 0x3" by simp
  have h2: "idex_mem ?idex = 1" by simp
  have h3: "idex_rd ?idex \<noteq> 0" by simp
  have h4: "reads_reg (ifid_inst ?ifid) (idex_rd ?idex)"
    by (simp add: reads_reg_def needs_rs1_def OPCODES_defs)
  from C3_load_use_stall [OF h1 h2 h3 h4, of EXMEM_zero False] h1 h2 h3 h4
  show ?thesis by simp
qed

section \<open>Pipeline registers and the PC\<close>

text \<open>
  Claim C4. For each of the four pipeline registers, the value the register holds after
  the clock edge is the bubble of its type when \<open>flush\<close> is set (for IF/ID the record
  with \<open>inst = 0x00000013\<close> and \<open>pc = -4\<close>, for the others the all-zero record), the
  value it held before when \<open>stall\<close> is set and \<open>flush\<close> is not, and the input
  otherwise: \<open>flush\<close> has priority over \<open>stall\<close>.
\<close>

theorem C4_pipeline_register_next:
  "Reg_tick ifid (IFIDReg_process IFID_i stall flush) =
     (if flush then \<lparr>ifid_inst = 0x00000013, ifid_pc = - 4\<rparr>
      else if stall then ifid else IFID_i) \<and>
   Reg_tick idex (IDEXReg_process IDEX_i stall flush) =
     (if flush then IDEX_zero else if stall then idex else IDEX_i) \<and>
   Reg_tick exmem (EXMEMReg_process EXMEM_i stall flush) =
     (if flush then EXMEM_zero else if stall then exmem else EXMEM_i) \<and>
   Reg_tick memwb (MEMWBReg_process MEMWB_i stall flush) =
     (if flush then MEMWB_zero else if stall then memwb else MEMWB_i)"
  by (simp add: Reg_tick_def IFIDReg_process_def IDEXReg_process_def EXMEMReg_process_def
        MEMWBReg_process_def)

text \<open>
  Claim C5. \<open>connects\<close> writes \<open>next\<close> of the PC register exactly when its stall input
  is deasserted; the PC after the clock edge is the old PC when the stall is asserted
  and the next-PC wire otherwise; the two wires that \<open>connects\<close> drives,
  \<open>take_branch\<close> and \<open>alu_res\<close>, do not depend on the stall. In a cycle of the whole
  core the stall input is the \<open>stall_pc\<close> output of the hazard unit.
\<close>

theorem C5_pc_holds_under_stall:
  "fst (connects stall npc exmem) = (if stall then None else Some npc) \<and>
   Reg_tick pc (fst (connects stall npc exmem)) = (if stall then pc else npc) \<and>
   snd (connects stall npc exmem) = (exmem_take_branch exmem, exmem_alu_res exmem) \<and>
   pc_reg (cycle st s) =
     (if stall_pc_o (HazardUnit_process (ifid_reg s) (idex_reg s) (exmem_reg s)
            (exmem_take_branch (exmem_reg s)))
      then pc_reg s
      else BranchUnit st (rest s) (ifid_reg s) (pc_reg s) (exmem_take_branch (exmem_reg s))
             (exmem_alu_res (exmem_reg s)))"
  by (simp add: connects_def connects_pc_def connects_signals_def Reg_tick_def pc_cycle)

section \<open>Immediates\<close>

lemma get_bits_eq: "get_bits val msb lsb = take_bit (msb - lsb + 1) (drop_bit lsb val)"
  by (simp add: get_bits_def take_bit_eq_mask mask_eq_exp_minus_1 push_bit_eq_mult)

lemma get_bit_eq: "get_bit val pos = of_bool (bit val pos)"
  by (simp add: get_bit_def and_one_eq bit_iff_odd_drop_bit mod_2_eq_odd)

lemma get_bit_nonzero: "get_bit val pos \<noteq> 0 \<longleftrightarrow> bit val pos"
  by (simp add: get_bit_eq)

lemma get_bits_range:
  "0 \<le> get_bits val msb lsb \<and> get_bits val msb lsb < 2 ^ (msb - lsb + 1)"
  unfolding get_bits_eq
  by (rule conjI, rule take_bit_nonnegative, rule take_bit_int_less_exp)

lemma bit_get_bits:
  "bit (get_bits val msb lsb) n \<longleftrightarrow> n < msb - lsb + 1 \<and> bit val (n + lsb)"
  by (auto simp: get_bits_eq bit_simps ac_simps)

lemma bit_push_get_bits:
  "bit (push_bit k (get_bits val msb lsb)) n \<longleftrightarrow>
     k \<le> n \<and> n < k + (msb - lsb + 1) \<and> bit val (n + lsb - k)"
  by (auto simp: bit_get_bits bit_simps ac_simps)

lemma bit_double_get_bits:
  "bit (2 * get_bits val msb lsb) n \<longleftrightarrow>
     1 \<le> n \<and> n < 1 + (msb - lsb + 1) \<and> bit val (n + lsb - 1)"
  using bit_push_get_bits [of 1 val msb lsb n] by (simp add: push_bit_eq_mult mult.commute)

lemma bit_push_get_bit: "bit (push_bit k (get_bit val pos)) n \<longleftrightarrow> n = k \<and> bit val pos"
  by (auto simp: get_bit_eq bit_simps)

lemma bit_push_mask_int: "bit (push_bit k (mask m :: int)) n \<longleftrightarrow> k \<le> n \<and> n < k + m"
  by (auto simp: bit_simps)

lemma sign_ext_masks:
  "(0xfffff :: int) = mask 20" "(0x7ffff :: int) = mask 19" "(0x7ff :: int) = mask 11"
  by (simp_all add: mask_eq_exp_minus_1)

lemmas imm_bit_simps = bit_or_iff bit_get_bits bit_push_get_bits bit_double_get_bits
  bit_push_get_bit bit_push_mask_int get_bit_nonzero

lemma decode_imm_I: "opcode \<in> set INST_I \<Longrightarrow> bit (decode_imm opcode inst) n = imm_I_bit inst n"
  unfolding decode_imm_def Let_def imm_I_bit_def sign_ext_masks
  by (auto simp add: imm_bit_simps ac_simps)

lemma decode_imm_S: "opcode \<in> set INST_S \<Longrightarrow> bit (decode_imm opcode inst) n = imm_S_bit inst n"
  unfolding decode_imm_def Let_def imm_S_bit_def sign_ext_masks
  by (auto simp add: INST_defs OPCODES_defs imm_bit_simps ac_simps)

lemma decode_imm_B: "opcode \<in> set INST_B \<Longrightarrow> bit (decode_imm opcode inst) n = imm_B_bit inst n"
  unfolding decode_imm_def Let_def imm_B_bit_def sign_ext_masks
  by (auto simp add: INST_defs OPCODES_defs imm_bit_simps ac_simps)

lemma decode_imm_U: "opcode \<in> set INST_U \<Longrightarrow> bit (decode_imm opcode inst) n = imm_U_bit inst n"
  unfolding decode_imm_def Let_def imm_U_bit_def sign_ext_masks
  by (auto simp add: INST_defs OPCODES_defs imm_bit_simps ac_simps)

lemma decode_imm_J: "opcode \<in> set INST_J \<Longrightarrow> bit (decode_imm opcode inst) n = imm_J_bit inst n"
  unfolding decode_imm_def Let_def imm_J_bit_def sign_ext_masks
  by (auto simp add: INST_defs OPCODES_defs imm_bit_simps ac_simps)

text \<open>
  Claim C6. For every instruction word and every bit position \<open>n\<close>, bit \<open>n\<close> of the
  decoded immediate is the bit that the layout of the opcode's class puts there:
  for B-type \<open>{inst[31], inst[7], inst[30:25], inst[11:8], 0}\<close> with \<open>inst[31]\<close> in bits
  12 to 31, for J-type \<open>{inst[31], inst[19:12], inst[20], inst[30:21], 0}\<close> with
  \<open>inst[31]\<close> in bits 20 to 31, for I-type \<open>inst[31:20]\<close> and for S-type
  \<open>{inst[31:25], inst[11:7]}\<close>, both with \<open>inst[31]\<close> in bits 11 to 31, and for U-type
  \<open>{inst[31:12], 12'b0}\<close>; bits 32 and above are clear.
\<close>

theorem C6_decode_imm_layout:
  "(opcode \<in> set INST_I \<longrightarrow> bit (decode_imm opcode inst) n = imm_I_bit inst n) \<and>
   (opcode \<in> set INST_S \<longrightarrow> bit (decode_imm opcode inst) n = imm_S_bit inst n) \<and>
   (opcode \<in> set INST_B \<longrightarrow> bit (decode_imm opcode inst) n = imm_B_bit inst n) \<and>
   (opcode \<in> set INST_U \<longrightarrow> bit (decode_imm opcode inst) n = imm_U_bit inst n) \<and>
   (opcode \<in> set INST_J \<longrightarrow> bit (decode_imm opcode inst) n = imm_J_bit inst n)"
  by (simp add: decode_imm_I decode_imm_S decode_imm_B decode_imm_U decode_imm_J)

text \<open>
  Claim C6, at \<open>addi x2, x0, -1\<close>, \<open>sw x10, -4(x2)\<close>, \<open>beq x0, x0, -4\<close>,
  \<open>lui x5, 0x12345\<close> and \<open>jal x1, -8\<close>.
\<close>

theorem C6_decode_imm_layout_witness:
  "(OPCODE_OP_IMM \<in> set INST_I \<and> bit (decode_imm OPCODE_OP_IMM 0xFFF00113) 31) \<and>
   (OPCODE_STORE \<in> set INST_S \<and> bit (decode_imm OPCODE_STORE 0xFEA12E23) 2) \<and>
   (OPCODE_BRANCH \<in> set INST_B \<and> \<not> bit (decode_imm OPCODE_BRANCH 0xFE000EE3) 0) \<and>
   (OPCODE_LUI \<in> set INST_U \<and> bit (decode_imm OPCODE_LUI 0x123452B7) 12) \<and>
   (OPCODE_JAL \<in> set INST_J \<and> bit (decode_imm OPCODE_JAL 0xFF9FF0EF) 3)"
  using C6_decode_imm_layout [of OPCODE_OP_IMM "0xFFF00113" 31]
    C6_decode_imm_layout [of OPCODE_STORE "0xFEA12E23" 2]
    C6_decode_imm_layout [of OPCODE_BRANCH "0xFE000EE3" 0]
    C6_decode_imm_layout [of OPCODE_LUI "0x123452B7" 12]
    C6_decode_imm_layout [of OPCODE_JAL "0xFF9FF0EF" 3]
  by (simp add: INST_defs OPCODES_defs imm_I_bit_def imm_S_bit_def imm_B_bit_def imm_U_bit_def
        imm_J_bit_def)

text \<open>The immediates of the same five instructions, as 32-bit values.\<close>

lemma decode_imm_examples:
  "decode_imm OPCODE_OP_IMM 0xFFF00113 = 0xFFFFFFFF"
  "decode_imm OPCODE_STORE 0xFEA12E23 = 0xFFFFFFFC"
  "decode_imm OPCODE_BRANCH 0xFE000EE3 = 0xFFFFFFFC"
  "decode_imm OPCODE_LUI 0x123452B7 = 0x12345000"
  "decode_imm OPCODE_JAL 0xFF9FF0EF = 0xFFFFFFF8"
  by (simp_all add: decode_imm_def get_bit_def get_bits_def INST_defs OPCODES_defs)

section \<open>Unknown and invalid words\<close>

lemma reg_name_field:
  assumes "msb - lsb = 4"
  shows "\<exists>name. reg_name (get_bits inst msb lsb) = Some name"
proof -
  have "0 \<le> get_bits inst msb lsb \<and> get_bits inst msb lsb < 32"
    using get_bits_range [of inst msb lsb] assms by simp
  then show ?thesis
    by (simp add: reg_name_def REG_ABI_NAMES_def)
qed

lemma dis_OP_None:
  "reg_name rd = Some a \<Longrightarrow> reg_name rs1 = Some b \<Longrightarrow> reg_name rs2 = Some c \<Longrightarrow>
   funct7 \<noteq> 0 \<Longrightarrow> funct7 = 0x20 \<longrightarrow> funct3 \<noteq> 0 \<and> funct3 \<noteq> 5 \<Longrightarrow>
   dis_OP funct3 funct7 rd rs1 rs2 = None"
  by (simp add: dis_OP_def Let_def)

lemma dis_OP_IMM_None:
  "reg_name rd = Some a \<Longrightarrow> reg_name rs1 = Some b \<Longrightarrow>
   funct3 \<notin> {0, 1, 2, 3, 4, 6, 7} \<Longrightarrow> funct7 \<notin> {0, 0x20} \<Longrightarrow>
   dis_OP_IMM inst funct3 funct7 rd rs1 imm_signed = None"
  by (simp add: dis_OP_IMM_def Let_def)

lemma dis_LOAD_None:
  "reg_name rd = Some a \<Longrightarrow> reg_name rs1 = Some b \<Longrightarrow> funct3 \<notin> {0, 1, 2, 4, 5} \<Longrightarrow>
   dis_LOAD funct3 rd rs1 imm_signed = None"
  by (simp add: dis_LOAD_def Let_def)

lemma dis_STORE_None:
  "reg_name rs1 = Some b \<Longrightarrow> reg_name rs2 = Some c \<Longrightarrow> funct3 \<notin> {0, 1, 2} \<Longrightarrow>
   dis_STORE funct3 rs1 rs2 imm_signed = None"
  by (simp add: dis_STORE_def Let_def)

lemma dis_BRANCH_None:
  "reg_name rs1 = Some b \<Longrightarrow> reg_name rs2 = Some c \<Longrightarrow> funct3 \<notin> {0, 1, 4, 5, 6, 7} \<Longrightarrow>
   dis_BRANCH funct3 rs1 rs2 imm_signed = None"
  by (simp add: dis_BRANCH_def Let_def)

lemma dis_SYSTEM_None:
  "reg_name rd = Some a \<Longrightarrow> reg_name rs1 = Some b \<Longrightarrow> funct3 \<notin> {1, 2, 3, 5, 6, 7} \<Longrightarrow>
   dis_SYSTEM inst funct3 rd rs1 = None"
  by (simp add: dis_SYSTEM_def Let_def CSR_F3_defs)

lemma not_recognizedD:
  assumes v: "inst AND 0x3 = 0x3" and u: "\<not> recognized inst"
  shows "get_bits inst 6 2 = OPCODE_OP \<longrightarrow>
           get_bits inst 31 25 \<noteq> 0 \<and>
           (get_bits inst 31 25 = 0x20 \<longrightarrow> get_bits inst 14 12 \<noteq> 0 \<and> get_bits inst 14 12 \<noteq> 5)"
    and "get_bits inst 6 2 = OPCODE_OP_IMM \<longrightarrow>
           get_bits inst 14 12 \<notin> {0, 1, 2, 3, 4, 6, 7} \<and> get_bits inst 31 25 \<notin> {0, 0x20}"
    and "get_bits inst 6 2 = OPCODE_LOAD \<longrightarrow> get_bits inst 14 12 \<notin> {0, 1, 2, 4, 5}"
    and "get_bits inst 6 2 = OPCODE_STORE \<longrightarrow> get_bits inst 14 12 \<notin> {0, 1, 2}"
    and "get_bits inst 6 2 = OPCODE_BRANCH \<longrightarrow> get_bits inst 14 12 \<notin> {0, 1, 4, 5, 6, 7}"
    and "get_bits inst 6 2 \<notin> {OPCODE_JAL, OPCODE_JALR, OPCODE_LUI, OPCODE_AUIPC}"
    and "get_bits inst 6 2 = OPCODE_SYSTEM \<longrightarrow> get_bits inst 14 12 \<notin> {1, 2, 3, 5, 6, 7}"
  using u v unfolding recognized_def Let_def by simp_all

lemma dis_try_None:
  assumes v: "inst AND 0x3 = 0x3" and u: "\<not> recognized inst"
  shows "dis_try inst = None"
proof -
  obtain a where rd: "reg_name (get_bits inst 11 7) = Some a"
    using reg_name_field [of 11 7 inst] by auto
  obtain b where rs1: "reg_name (get_bits inst 19 15) = Some b"
    using reg_name_field [of 19 15 inst] by auto
  obtain c where rs2: "reg_name (get_bits inst 24 20) = Some c"
    using reg_name_field [of 24 20 inst] by auto
  note n = not_recognizedD [OF v u]
  show ?thesis
    unfolding dis_try_def Let_def
    using n
    by (simp add: dis_OP_None [OF rd rs1 rs2] dis_OP_IMM_None [OF rd rs1]
          dis_LOAD_None [OF rd rs1] dis_STORE_None [OF rs1 rs2] dis_BRANCH_None [OF rs1 rs2]
          dis_SYSTEM_None [OF rd rs1])
qed

lemma replicate_numeral_char:
  "replicate (numeral k) (c :: char) = c # replicate (pred_numeral k) c"
  by (simp add: numeral_eq_Suc)

lemma py_format_x_examples:
  "py_format_x 8 0 = ''00000000''"
  "py_format_x 8 0x00100073 = ''00100073''"
  by (simp_all add: py_format_x_def zfill_def digit_char_def replicate_numeral_char)

lemma not_recognized_ebreak: "\<not> recognized 0x00100073"
  by (simp add: recognized_def get_bits_def OPCODES_defs)

text \<open>
  Claim C7, as stated: every word that does not encode a recognized instruction is
  disassembled to \<open>("UNKNOWN", "unknown instruction (0x...)")\<close>, whatever its low two
  bits are. The word 0 is not recognized, and it is disassembled to
  \<open>("INVALID", "invalid instruction (0x00000000)")\<close>.
\<close>

theorem C7_invalid_word_counterexample:
  "\<not> recognized 0 \<and>
   disassemble 0 = (''INVALID'', ''invalid instruction (0x00000000)'') \<and>
   disassemble 0 \<noteq> (''UNKNOWN'', ''unknown instruction (0x00000000)'')"
  by (simp add: recognized_def disassemble_def py_format_x_examples)

text \<open>
  Claim C7, amended: for every word whose low two bits are \<open>11\<close> and that does not
  encode a recognized instruction, \<open>disassemble\<close> returns the pair
  \<open>("UNKNOWN", "unknown instruction (0x...)")\<close> with the word in hexadecimal, eight
  digits, lower case; for every word whose low two bits are not \<open>11\<close> it returns
  \<open>("INVALID", "invalid instruction (0x...)")\<close> with the word in the same format.
\<close>

theorem C7_unknown_or_invalid:
  "(inst AND 0x3 \<noteq> 0x3 \<longrightarrow>
      disassemble inst =
        (''INVALID'', ''invalid instruction (0x'' @ py_format_x 8 inst @ '')'')) \<and>
   (inst AND 0x3 = 0x3 \<longrightarrow> \<not> recognized inst \<longrightarrow>
      disassemble inst =
        (''UNKNOWN'', ''unknown instruction (0x'' @ py_format_x 8 inst @ '')''))"
proof (intro conjI impI)
  assume a: "inst AND 0x3 \<noteq> 0x3"
  have "inst \<noteq> 0x13" "inst \<noteq> 0x73" "inst \<noteq> 0x30200073"
    using a by auto
  then show "disassemble inst =
      (''INVALID'', ''invalid instruction (0x'' @ py_format_x 8 inst @ '')'')"
    using a by (simp add: disassemble_def)
next
  assume v: "inst AND 0x3 = 0x3" and u: "\<not> recognized inst"
  from u have "inst \<noteq> 0x13" "inst \<noteq> 0x73" "inst \<noteq> 0x30200073"
    by (simp_all add: recognized_def)
  then show "disassemble inst =
      (''UNKNOWN'', ''unknown instruction (0x'' @ py_format_x 8 inst @ '')'')"
    using v by (simp add: disassemble_def dis_try_None [OF v u])
qed

text \<open>
  Claim C7, at the word 0 (low bits \<open>00\<close>) and at \<open>0x00100073\<close> (EBREAK, a SYSTEM word
  with \<open>funct3 = 0\<close> that \<open>disassemble\<close> has no name for).
\<close>

theorem C7_unknown_or_invalid_witness:
  "(0 AND 0x3 \<noteq> (0x3 :: int) \<and>
    disassemble 0 = (''INVALID'', ''invalid instruction (0x00000000)'')) \<and>
   (0x00100073 AND 0x3 = (0x3 :: int) \<and> \<not> recognized 0x00100073 \<and>
    disassemble 0x00100073 = (''UNKNOWN'', ''unknown instruction (0x00100073)''))"
  using C7_unknown_or_invalid [of "0x00100073"] C7_unknown_or_invalid [of 0]
    not_recognized_ebreak
  by (simp add: py_format_x_examples)

text \<open>
  Conversely, a recognized word is never disassembled to \<open>"UNKNOWN"\<close>: the predicate
  \<open>recognized\<close> holds of exactly the words that \<open>disassemble\<close> names.
\<close>

lemma funct3_cases:
  "get_bits inst 14 12 \<in> {0, 1, 2, 3, 4, 5, 6, 7}"
  using get_bits_range [of inst 14 12] by auto

lemma named_Some [simp]: "named (Some (m, d)) \<longleftrightarrow> m \<noteq> ''UNKNOWN''"
  by (simp add: named_def)

lemma dis_OP_named:
  "reg_name rd = Some a \<Longrightarrow> reg_name rs1 = Some b \<Longrightarrow> reg_name rs2 = Some c \<Longrightarrow>
   funct3 \<in> {0, 1, 2, 3, 4, 5, 6, 7} \<Longrightarrow>
   funct7 = 0 \<or> (funct7 = 0x20 \<and> funct3 \<in> {0, 5}) \<Longrightarrow>
   named (dis_OP funct3 funct7 rd rs1 rs2)"
  by (auto simp add: dis_OP_def Let_def)

lemma dis_OP_IMM_named:
  "reg_name rd = Some a \<Longrightarrow> reg_name rs1 = Some b \<Longrightarrow>
   funct3 \<in> {0, 1, 2, 3, 4, 5, 6, 7} \<Longrightarrow>
   funct3 \<in> {0, 1, 2, 3, 4, 6, 7} \<or> funct7 \<in> {0, 0x20} \<Longrightarrow>
   named (dis_OP_IMM inst funct3 funct7 rd rs1 imm_signed)"
  by (auto simp add: dis_OP_IMM_def Let_def)

lemma dis_LOAD_named:
  "reg_name rd = Some a \<Longrightarrow> reg_name rs1 = Some b \<Longrightarrow> funct3 \<in> {0, 1, 2, 4, 5} \<Longrightarrow>
   named (dis_LOAD funct3 rd rs1 imm_signed)"
  by (auto simp add: dis_LOAD_def Let_def)

lemma dis_STORE_named:
  "reg_name rs1 = Some b \<Longrightarrow> reg_name rs2 = Some c \<Longrightarrow> funct3 \<in> {0, 1, 2} \<Longrightarrow>
   named (dis_STORE funct3 rs1 rs2 imm_signed)"
  by (auto simp add: dis_STORE_def Let_def)

lemma dis_BRANCH_named:
  "reg_name rs1 = Some b \<Longrightarrow> reg_name rs2 = Some c \<Longrightarrow> funct3 \<in> {0, 1, 4, 5, 6, 7} \<Longrightarrow>
   named (dis_BRANCH funct3 rs1 rs2 imm_signed)"
  by (auto simp add: dis_BRANCH_def Let_def)

lemma dis_SYSTEM_named:
  "reg_name rd = Some a \<Longrightarrow> reg_name rs1 = Some b \<Longrightarrow> funct3 \<in> {1, 2, 3, 5, 6, 7} \<Longrightarrow>
   named (dis_SYSTEM inst funct3 rd rs1)"
  by (auto simp add: dis_SYSTEM_def Let_def CSR_F3_defs)


lemma dis_try_named:
  assumes v: "inst AND 0x3 = 0x3" and r: "recognized inst"
    and ns: "inst \<noteq> 0x13" "inst \<noteq> 0x73" "inst \<noteq> 0x30200073"
  shows "named (dis_try inst)"
proof -
  obtain a where rd: "reg_name (get_bits inst 11 7) = Some a"
    using reg_name_field [of 11 7 inst] by auto
  obtain b where rs1: "reg_name (get_bits inst 19 15) = Some b"
    using reg_name_field [of 19 15 inst] by auto
  obtain c where rs2: "reg_name (get_bits inst 24 20) = Some c"
    using reg_name_field [of 24 20 inst] by auto
  let ?op = "get_bits inst 6 2" and ?f3 = "get_bits inst 14 12" and ?f7 = "get_bits inst 31 25"
  note f3 = funct3_cases [of inst]
  from r ns have
    "(?op = OPCODE_OP \<and> (?f7 = 0 \<or> (?f7 = 0x20 \<and> ?f3 \<in> {0, 5}))) \<or>
     (?op = OPCODE_OP_IMM \<and> (?f3 \<in> {0, 1, 2, 3, 4, 6, 7} \<or> ?f7 \<in> {0, 0x20})) \<or>
     (?op = OPCODE_LOAD \<and> ?f3 \<in> {0, 1, 2, 4, 5}) \<or>
     (?op = OPCODE_STORE \<and> ?f3 \<in> {0, 1, 2}) \<or>
     (?op = OPCODE_BRANCH \<and> ?f3 \<in> {0, 1, 4, 5, 6, 7}) \<or>
     ?op \<in> {OPCODE_JAL, OPCODE_JALR, OPCODE_LUI, OPCODE_AUIPC} \<or>
     (?op = OPCODE_SYSTEM \<and> ?f3 \<in> {1, 2, 3, 5, 6, 7})"
    unfolding recognized_def Let_def by simp
  then consider
      (op) "?op = OPCODE_OP" "?f7 = 0 \<or> (?f7 = 0x20 \<and> ?f3 \<in> {0, 5})"
    | (imm) "?op = OPCODE_OP_IMM" "?f3 \<in> {0, 1, 2, 3, 4, 6, 7} \<or> ?f7 \<in> {0, 0x20}"
    | (load) "?op = OPCODE_LOAD" "?f3 \<in> {0, 1, 2, 4, 5}"
    | (store) "?op = OPCODE_STORE" "?f3 \<in> {0, 1, 2}"
    | (branch) "?op = OPCODE_BRANCH" "?f3 \<in> {0, 1, 4, 5, 6, 7}"
    | (jal) "?op = OPCODE_JAL" | (jalr) "?op = OPCODE_JALR"
    | (lui) "?op = OPCODE_LUI" | (auipc) "?op = OPCODE_AUIPC"
    | (system) "?op = OPCODE_SYSTEM" "?f3 \<in> {1, 2, 3, 5, 6, 7}"
    by blast
  then show ?thesis
  proof cases
    case op
    then show ?thesis
      using dis_OP_named [OF rd rs1 rs2 f3 op(2)] by (simp add: dis_try_def Let_def)
  next
    case imm
    then show ?thesis
      using dis_OP_IMM_named [OF rd rs1 f3 imm(2)]
      by (simp add: dis_try_def Let_def OPCODES_defs)
  next
    case load
    then show ?thesis
      using dis_LOAD_named [OF rd rs1 load(2)] by (simp add: dis_try_def Let_def OPCODES_defs)
  next
    case store
    then show ?thesis
      using dis_STORE_named [OF rs1 rs2 store(2)] by (simp add: dis_try_def Let_def OPCODES_defs)
  next
    case branch
    then show ?thesis
      using dis_BRANCH_named [OF rs1 rs2 branch(2)]
      by (simp add: dis_try_def Let_def OPCODES_defs)
  next
    case jal
    then show ?thesis by (simp add: dis_try_def Let_def OPCODES_defs rd)
  next
    case jalr
    then show ?thesis by (simp add: dis_try_def Let_def OPCODES_defs rd rs1)
  next
    case lui
    then show ?thesis by (simp add: dis_try_def Let_def OPCODES_defs rd)
  next
    case auipc
    then show ?thesis by (simp add: dis_try_def Let_def OPCODES_defs rd)
  next
    case system
    then show ?thesis
      using dis_SYSTEM_named [OF rd rs1 system(2)]
      by (simp add: dis_try_def Let_def OPCODES_defs)
  qed
qed

lemma recognized_not_unknown:
  assumes "recognized inst"
  shows "fst (disassemble inst) \<noteq> ''UNKNOWN''"
proof (cases "inst = 0x13 \<or> inst = 0x73 \<or> inst = 0x30200073")
  case True
  then show ?thesis by (auto simp add: disassemble_def)
next
  case False
  then have ns: "inst \<noteq> 0x13" "inst \<noteq> 0x73" "inst \<noteq> 0x30200073" by simp_all
  with assms have v: "inst AND 0x3 = 0x3" by (simp add: recognized_def)
  from dis_try_named [OF v assms ns] obtain m d where
    "dis_try inst = Some (m, d)" "m \<noteq> ''UNKNOWN''"
    by (auto simp: named_def split: option.splits)
  then show ?thesis using ns v by (simp add: disassemble_def)
qed

text \<open>Two recognized words, for comparison.\<close>

lemma disassemble_examples:
  "disassemble 0x02A00113 = (''ADDI'', ''addi x2(sp), x0(zero), 42'')"
  "disassemble 0xFE000EE3 = (''BEQ'', ''beq x0(zero), x0(zero), -4'')"
  "disassemble 0x00108663 = (''BEQ'', ''beq x1(ra), x1(ra), 12'')"
  by code_simp+

section \<open>Loading and reading memory\<close>

lemma load_binary_found:
  "fs file = Some ba \<Longrightarrow> load_binary fs mem file = Inr (ba @ drop (length ba) mem)"
  by (simp add: load_binary_def py_set_prefix_def)

text \<open>
  Claim C8, as stated: \<open>load_binary\<close> fails with an \<open>InvalidBinary\<close> error when the
  file is not found or is larger than the memory, and never loads bytes past the memory
  size. For a path with no file the error is the \<open>FileNotFoundError\<close> of \<open>open\<close>; a
  file of 8193 bytes is loaded whole into the memory of 8192 bytes, which is 8193 bytes
  long afterwards.
\<close>

theorem C8_no_InvalidBinary_counterexample:
  "load_binary Map.empty (Memory (8 * 1024)) ''missing.bin'' = Inl FileNotFoundError \<and>
   load_binary Map.empty (Memory (8 * 1024)) ''missing.bin'' \<noteq> Inl InvalidBinary \<and>
   load_binary [''big.bin'' \<mapsto> replicate 8193 7] (Memory (8 * 1024)) ''big.bin''
     = Inr (replicate 8193 7)"
  by (simp add: load_binary_def py_set_prefix_def Memory_def)

text \<open>
  Claim C8, amended: \<open>load_binary\<close> fails synchronously with \<open>FileNotFoundError\<close>, the
  error of \<open>open\<close>, when the named file is not found, and never with \<open>InvalidBinary\<close>;
  when the file exists it does not fail and makes no size check: the bytes of the file
  become the first cells of the memory, from address 0, and the cells from the length
  of the file on are unchanged.
\<close>

theorem C8_load_binary:
  "(fs file = None \<longrightarrow> load_binary fs mem file = Inl FileNotFoundError) \<and>
   (fs file = Some ba \<longrightarrow>
      (\<exists>mem'. load_binary fs mem file = Inr mem' \<and>
              take (length ba) mem' = ba \<and>
              drop (length ba) mem' = drop (length ba) mem)) \<and>
   load_binary fs mem file \<noteq> Inl InvalidBinary"
  by (simp add: load_binary_def py_set_prefix_def split: option.split)

text \<open>
  Claim C8, at a path with no file and at a file of three bytes loaded into a memory of
  five cells.
\<close>

theorem C8_load_binary_witness:
  "(Map.empty ''a.bin'' = (None :: int list option) \<and>
    load_binary Map.empty [0, 0, 0, 0, 0] ''a.bin'' = Inl FileNotFoundError) \<and>
   ([''a.bin'' \<mapsto> [0x13, 0x01, 0xA0]] ''a.bin'' = Some [0x13, 0x01, 0xA0] \<and>
    load_binary [''a.bin'' \<mapsto> [0x13, 0x01, 0xA0]] [9, 9, 9, 9, 9] ''a.bin''
      = Inr [0x13, 0x01, 0xA0, 9, 9])"
  using C8_load_binary [of Map.empty "''a.bin''" "[0, 0, 0, 0, 0]" "[]"]
    C8_load_binary [of "[''a.bin'' \<mapsto> [0x13, 0x01, 0xA0]]" "''a.bin''" "[9, 9, 9, 9, 9]"
      "[0x13, 0x01, 0xA0]"]
  by (simp add: load_binary_found)

lemma py_getitem_in_bounds:
  "0 \<le> a \<Longrightarrow> a < int (length mem) \<Longrightarrow> py_getitem mem a = Inr (mem ! nat a)"
  by (simp add: py_getitem_def)

lemma hex_bytes_in_bounds:
  "0 \<le> addr \<Longrightarrow> \<forall>i\<in>set is. 0 \<le> i \<and> addr + i < int (length mem) \<Longrightarrow>
   hex_bytes mem addr is = Inr (map (\<lambda>i. PyStr (py_hex (mem ! nat (addr + i)))) is)"
  by (induction "is") (simp_all add: py_getitem_in_bounds)

lemma readDataMem_in_bounds:
  assumes "0 \<le> addr" and "addr + n \<le> int (length mem)"
  shows "readDataMem mem addr n =
           Inr (map (\<lambda>i. PyStr (py_hex (mem ! (nat addr + i)))) [0..<nat n])"
proof -
  have "\<forall>i\<in>set (py_range n). 0 \<le> i \<and> addr + i < int (length mem)"
    using assms by (auto simp: py_range_def)
  then have "readDataMem mem addr n =
      Inr (map (\<lambda>i. PyStr (py_hex (mem ! nat (addr + i)))) (py_range n))"
    unfolding readDataMem_def using assms(1) by (rule hex_bytes_in_bounds [rotated])
  also have "map (\<lambda>i. PyStr (py_hex (mem ! nat (addr + i)))) (py_range n) =
      map (\<lambda>i. PyStr (py_hex (mem ! (nat addr + i)))) [0..<nat n]"
    using assms by (simp add: py_range_def nat_add_distrib comp_def)
  finally show ?thesis .
qed

lemma py_hex_examples: "py_hex 55 = ''0x37''" "py_hex 0 = ''0x0''" "py_hex 255 = ''0xff''"
  by (simp_all add: py_hex_def digit_char_def)

lemma upt_0_4: "[0..<4] = [0, 1, 2, 3 :: nat]"
  by code_simp

text \<open>
  Claim C9, as stated: \<open>read_data_mem(addr, n)\<close> returns the byte values as numbers, so
  that with the word 55 stored at address 2048 the result of \<open>read_data_mem(2048, 4)\<close>
  is \<open>[55, 0, 0, 0]\<close>. In the memory of 8 KiB with 55 at address 2048 and 0 elsewhere,
  \<open>readDataMem\<close> returns the list of strings \<open>['0x37', '0x0', '0x0', '0x0']\<close>, which is
  not the list of numbers.
\<close>

theorem C9_hex_strings_counterexample:
  "readDataMem ((Memory (8 * 1024))[2048 := 55]) 2048 4
     = Inr [PyStr ''0x37'', PyStr ''0x0'', PyStr ''0x0'', PyStr ''0x0''] \<and>
   readDataMem ((Memory (8 * 1024))[2048 := 55]) 2048 4
     \<noteq> Inr [PyInt 55, PyInt 0, PyInt 0, PyInt 0]"
  by (simp add: readDataMem_in_bounds Memory_def py_hex_examples upt_0_4)

text \<open>
  Claim C9, amended: for every in-bounds address \<open>addr\<close> and count \<open>n\<close>,
  \<open>read_data_mem(addr, n)\<close> returns the list of the \<open>n\<close> strings \<open>hex(b)\<close> for the
  bytes \<open>b\<close> of memory at the addresses \<open>addr\<close> to \<open>addr + n - 1\<close>; in particular,
  with the word 55 stored at address 2048, \<open>read_data_mem(2048, 4)\<close> is
  \<open>['0x37', '0x0', '0x0', '0x0']\<close>.
\<close>

theorem C9_readDataMem_hex:
  assumes "0 \<le> addr" and "addr + n \<le> int (length mem)"
  shows "readDataMem mem addr n =
           Inr (map (\<lambda>i. PyStr (py_hex (mem ! (nat addr + i)))) [0..<nat n])"
  using assms by (rule readDataMem_in_bounds)

text \<open>Claim C9, at the memory of 8 KiB with the word 55 at address 2048.\<close>

theorem C9_readDataMem_hex_witness:
  "(0 :: int) \<le> 2048 \<and> 2048 + 4 \<le> int (length ((Memory (8 * 1024))[2048 := 55])) \<and>
   readDataMem ((Memory (8 * 1024))[2048 := 55]) 2048 4
     = Inr [PyStr ''0x37'', PyStr ''0x0'', PyStr ''0x0'', PyStr ''0x0'']"
proof -
  have h1: "(0 :: int) \<le> 2048" by simp
  have h2: "2048 + 4 \<le> int (length ((Memory (8 * 1024))[2048 := 55]))"
    by (simp add: Memory_def)
  from C9_readDataMem_hex [OF h1 h2] h2 show ?thesis
    by (simp add: Memory_def py_hex_examples upt_0_4)
qed

text \<open>
  Claim C10. For every memory, address and count, \<open>readInstMem\<close> and \<open>readDataMem\<close>
  return the same result, an exception included: both read the one array
  \<open>core.mem.mem\<close>. So after the byte at an address \<open>a\<close> of that array is set to \<open>v\<close>,
  as a data store does, \<open>readInstMem\<close> reports \<open>hex(v)\<close> at \<open>a\<close>.
\<close>

theorem C10_inst_and_data_reads_agree:
  "readInstMem mem addr nbytes = readDataMem mem addr nbytes \<and>
   (a < length mem \<longrightarrow> readInstMem (mem[a := v]) (int a) 1 = Inr [PyStr (py_hex v)])"
  by (simp add: readInstMem_def readDataMem_def py_range_def py_getitem_def)

text \<open>Claim C10, at a memory of four cells whose cell 2 is set to 255.\<close>

theorem C10_inst_and_data_reads_agree_witness:
  "(2 :: nat) < length [0x13, 0, 0, 0 :: int] \<and>
   readInstMem ([0x13, 0, 0, 0][2 := 255]) 2 1 = Inr [PyStr ''0xff''] \<and>
   readDataMem ([0x13, 0, 0, 0][2 := 255]) 2 1 = Inr [PyStr ''0xff'']"
  using C10_inst_and_data_reads_agree [where mem = "[0x13, 0, 0, 0]" and a = 2 and v = 255]
    C10_inst_and_data_reads_agree [where mem = "[0x13, 0, 0, 0][2 := 255]" and addr = 2
      and nbytes = 1]
  by (simp add: py_hex_examples)

end
